theory Spec2Isabelle
  imports Main
begin

section \<open>Strings\<close>

text \<open>
  Python strings are modelled as HOL strings. URLs and catalog entries are ASCII text;
  on ASCII text \<open>str.lower\<close>, \<open>str.strip\<close>, \<open>len\<close> and the \<open>in\<close> operator behave as the
  functions below.
\<close>

definition lower_char :: "char \<Rightarrow> char" where
  "lower_char c =
     (let n = (of_char c :: nat) in if 65 \<le> n \<and> n \<le> 90 then char_of (n + 32) else c)"

definition lower :: "string \<Rightarrow> string" where
  "lower s = map lower_char s"

text \<open>\<open>s.startswith(d)\<close>.\<close>

fun startswith :: "string \<Rightarrow> string \<Rightarrow> bool" where
  "startswith s [] = True"
| "startswith [] (d # ds) = False"
| "startswith (c # cs) (d # ds) = (c = d \<and> startswith cs ds)"

text \<open>\<open>d in s\<close>: the substring test, trying every start position from the left.\<close>

fun str_contains :: "string \<Rightarrow> string \<Rightarrow> bool" where
  "str_contains [] d = (d = [])"
| "str_contains (c # cs) d = (startswith (c # cs) d \<or> str_contains cs d)"

section \<open>Platform catalog\<close>

record PlatformConfig =
  name :: string
  icon :: string
  examples :: "string list"
  domains :: "string list"
  format_preference :: string

text \<open>The icons are single emoji; they are stored as their UTF-8 bytes.\<close>

definition YOUTUBE :: PlatformConfig where
  "YOUTUBE = \<lparr>
     name = ''YouTube'',
     icon = [CHR 0xF0, CHR 0x9F, CHR 0x8E, CHR 0xAC],
     examples = [
       ''https://www.youtube.com/watch?v=dQw4w9WgXcQ'',
       ''https://youtu.be/dQw4w9WgXcQ'',
       ''https://www.youtube.com/shorts/xxxxxxxxxxx''],
     domains = [''youtube.com'', ''youtu.be''],
     format_preference = ''bestvideo[ext=mp4]+bestaudio[ext=m4a]/best[ext=mp4]/best'' \<rparr>"

definition INSTAGRAM :: PlatformConfig where
  "INSTAGRAM = \<lparr>
     name = ''Instagram'',
     icon = [CHR 0xF0, CHR 0x9F, CHR 0x93, CHR 0xB8],
     examples = [
       ''https://www.instagram.com/reel/CxxxxxXXXXX/'',
       ''https://www.instagram.com/p/CxxxxxXXXXX/'',
       ''https://www.instagram.com/tv/CxxxxxXXXXX/''],
     domains = [''instagram.com''],
     format_preference = ''best'' \<rparr>"

definition FACEBOOK :: PlatformConfig where
  "FACEBOOK = \<lparr>
     name = ''Facebook'',
     icon = [CHR 0xF0, CHR 0x9F, CHR 0x91, CHR 0xA5],
     examples = [
       ''https://www.facebook.com/watch?v=1234567890'',
       ''https://fb.watch/xxxxxxxxxxx/'',
       ''https://www.facebook.com/username/videos/1234567890''],
     domains = [''facebook.com'', ''fb.watch''],
     format_preference = ''best'' \<rparr>"

definition TWITTER :: PlatformConfig where
  "TWITTER = \<lparr>
     name = ''Twitter/X'',
     icon = [CHR 0xF0, CHR 0x9F, CHR 0x90, CHR 0xA6],
     examples = [
       ''https://twitter.com/username/status/1234567890'',
       ''https://x.com/username/status/1234567890''],
     domains = [''twitter.com'', ''x.com''],
     format_preference = ''best'' \<rparr>"

definition PINTEREST :: PlatformConfig where
  "PINTEREST = \<lparr>
     name = ''Pinterest'',
     icon = [CHR 0xF0, CHR 0x9F, CHR 0x93, CHR 0x8C],
     examples = [''https://www.pinterest.com/pin/1234567890/''],
     domains = [''pinterest.com''],
     format_preference = ''best'' \<rparr>"

text \<open>
  \<open>Platform.get_all\<close> returns a dict literal; Python dicts keep insertion order, so the
  dict is an association list. \<open>dict_values\<close> is \<open>.values()\<close>, \<open>map_of\<close> is lookup by key.
\<close>

definition get_all :: "(string \<times> PlatformConfig) list" where
  "get_all = [(''1'', YOUTUBE), (''2'', INSTAGRAM), (''3'', FACEBOOK),
              (''4'', TWITTER), (''5'', PINTEREST)]"

definition dict_values :: "('k \<times> 'v) list \<Rightarrow> 'v list" where
  "dict_values d = map snd d"

text \<open>\<open>any(domain in url.lower() for domain in platform.domains)\<close>\<close>

fun any_domain_in :: "string list \<Rightarrow> string \<Rightarrow> bool" where
  "any_domain_in [] url = False"
| "any_domain_in (domain # ds) url = (str_contains (lower url) domain \<or> any_domain_in ds url)"

text \<open>The \<open>for\<close> loop of \<open>detect_platform\<close> over the remaining platforms.\<close>

fun detect_loop :: "PlatformConfig list \<Rightarrow> string \<Rightarrow> PlatformConfig option" where
  "detect_loop [] url = None"
| "detect_loop (platform # ps) url =
     (if any_domain_in (domains platform) url then Some platform else detect_loop ps url)"

definition detect_platform :: "string \<Rightarrow> PlatformConfig option" where
  "detect_platform url = detect_loop (dict_values get_all) url"

section \<open>Python values, exceptions and number formatting\<close>

text \<open>
  An exception is a value. \<open>Exception msg\<close> stands for an instance of any subclass of
  Python's \<open>Exception\<close> with \<open>str(e) = msg\<close> (the extractor's errors, \<open>TypeError\<close>,
  \<open>KeyError\<close>, \<open>OverflowError\<close>, \<open>EOFError\<close>); \<open>KeyboardInterrupt\<close> derives from
  \<open>BaseException\<close> only, so \<open>except Exception\<close> does not catch it.
\<close>

datatype pyexc = Exception string | KeyboardInterrupt

text \<open>The decimal digit for a number below ten.\<close>

definition digit_char :: "nat \<Rightarrow> char" where
  "digit_char d = ''0123456789'' ! d"

fun str_nat :: "nat \<Rightarrow> string" where
  "str_nat n = (if n < 10 then [digit_char n] else str_nat (n div 10) @ [digit_char (n mod 10)])"

declare str_nat.simps [simp del]

text \<open>\<open>str(i)\<close> and \<open>f"{i}"\<close> for an int.\<close>

definition str_int :: "int \<Rightarrow> string" where
  "str_int i = (if i < 0 then CHR ''-'' # str_nat (nat (- i)) else str_nat (nat i))"

text \<open>
  Thousands separators: a comma after every group of three digits counted from the
  right, where more digits follow. \<open>group3_rev\<close> works on the reversed digit string.
\<close>

fun group3_rev :: "string \<Rightarrow> string" where
  "group3_rev (a # b # c # d # ds) = a # b # c # CHR '','' # group3_rev (d # ds)"
| "group3_rev ds = ds"

definition group3 :: "string \<Rightarrow> string" where
  "group3 s = rev (group3_rev (rev s))"

text \<open>\<open>f"{i:,}"\<close> for an int.\<close>

definition format_comma :: "int \<Rightarrow> string" where
  "format_comma i =
     (if i < 0 then CHR ''-'' # group3 (str_nat (nat (- i))) else group3 (str_nat (nat i)))"

text \<open>
  \<open>filesize / (1024 * 1024)\<close> is Python's true division of two ints: the quotient rounded
  to the nearest IEEE double (53 significant bits, ties to even), \<open>OverflowError\<close> when
  that is \<open>2 ^ 1024\<close> or more. The divisor is \<open>2 ^ 20\<close>, so the double is the dividend
  rounded to 53 significant bits, over \<open>2 ^ 20\<close>; it is kept exactly, as its sign and that
  numerator. \<open>format_2f\<close> is \<open>f"{x:.2f}"\<close> on such a value: the exact value rounded to
  hundredths, ties to even.
\<close>

fun bit_length :: "nat \<Rightarrow> nat" where
  "bit_length n = (if n = 0 then 0 else Suc (bit_length (n div 2)))"

declare bit_length.simps [simp del]

definition round_to_double :: "nat \<Rightarrow> nat" where
  "round_to_double a =
     (let b = bit_length a in
      if b \<le> 53 then a
      else
        let sh = b - 53; m = a div 2 ^ sh; r = a mod 2 ^ sh in
        (if 2 ^ sh < 2 * r \<or> (2 * r = 2 ^ sh \<and> odd m) then m + 1 else m) * 2 ^ sh)"

type_synonym mib_float = "bool \<times> nat"

definition true_div_mib :: "int \<Rightarrow> pyexc + mib_float" where
  "true_div_mib n =
     (let a = round_to_double (nat \<bar>n\<bar>) in
      if 2 ^ 1044 \<le> a then Inl (Exception ''integer division result too large for a float'')
      else Inr (n < 0, a))"

definition format_2f :: "mib_float \<Rightarrow> string" where
  "format_2f x =
     (case x of (neg, a) \<Rightarrow>
        let q = (a * 100) div 2 ^ 20;
            r = (a * 100) mod 2 ^ 20;
            h = (if 2 ^ 20 < 2 * r \<or> (2 * r = 2 ^ 20 \<and> odd q) then q + 1 else q)
        in (if neg then ''-'' else []) @ str_nat (h div 100) @ ''.'' @
           [digit_char (h mod 100 div 10), digit_char (h mod 10)])"

text \<open>\<open>str.strip()\<close>: the ASCII whitespace characters are removed from both ends.\<close>

definition is_space :: "char \<Rightarrow> bool" where
  "is_space c = ((of_char c :: nat) \<in> {9, 10, 11, 12, 13, 28, 29, 30, 31, 32})"

definition strip :: "string \<Rightarrow> string" where
  "strip s = rev (dropWhile is_space (rev (dropWhile is_space s)))"

section \<open>The terminal\<close>

text \<open>
  The terminal toolkit is a parameter. Its input side is a script: what the successive
  calls of \<open>Prompt.ask\<close> and of \<open>Confirm.ask\<close> return or raise, in order. At the end of
  the input a prompt raises \<open>EOFError\<close>. The prompt for the platform only ever returns
  one of its choices, \<open>'0'\<close> to \<open>'5'\<close>; the model does not rely on that.

  Its output side renders every string it is given as console markup and raises
  \<open>MarkupError\<close> on a closing tag that matches no open tag. \<open>markup_error\<close> is that
  check: for a text, the message of the \<open>MarkupError\<close> that rendering it raises, or
  \<open>None\<close> when it renders. The program consults it where a text holds metadata or an
  error message; the texts it builds from its own constants and the catalog render.
\<close>

record terminal =
  prompt_answers :: "(pyexc + string) list"
  confirm_answers :: "(pyexc + bool) list"
  markup_error :: "string \<Rightarrow> string option"

definition render_markup :: "terminal \<Rightarrow> string \<Rightarrow> pyexc + unit" where
  "render_markup tm s =
     (case markup_error tm s of None \<Rightarrow> Inr () | Some msg \<Rightarrow> Inl (Exception msg))"

text \<open>
  The cells of a table column are rendered from the first row down when the table is
  printed; a cell passed as \<open>None\<close> is empty. The first cell that fails raises.
\<close>

fun render_cells :: "terminal \<Rightarrow> string option list \<Rightarrow> pyexc + unit" where
  "render_cells tm [] = Inr ()"
| "render_cells tm (None # cells) = render_cells tm cells"
| "render_cells tm (Some s # cells) =
     (case render_markup tm s of Inl e \<Rightarrow> Inl e | Inr _ \<Rightarrow> render_cells tm cells)"

section \<open>Video metadata and its display\<close>

text \<open>
  The extractor's metadata is a Python dict. The model keeps the keys the program reads,
  each with the type the extractor documents for it, and each in one of three states:
  the key is absent, the key is present with the value \<open>None\<close>, or it holds a value.
  Durations, view counts and sizes are ints; a float under one of these keys is outside
  the model.
\<close>

datatype 'a field = Absent | Null | Val 'a

record info =
  title :: "string field"
  uploader :: "string field"
  duration :: "int field"
  view_count :: "int field"
  filesize :: "int field"
  filesize_approx :: "int field"
  upload_date :: "string field"

text \<open>
  \<open>info.get(key, default)\<close> with a default of the key's own type: the result is that type
  or \<open>None\<close> (HOL's \<open>None\<close> here is Python's).
\<close>

fun get :: "'a field \<Rightarrow> 'a \<Rightarrow> 'a option" where
  "get Absent d = Some d"
| "get Null d = None"
| "get (Val v) d = Some v"

text \<open>
  \<open>info.get(key, default)\<close> on an int key with the default \<open>'N/A'\<close>: the result is an int,
  \<open>None\<close> or a string.
\<close>

datatype pyval = PNone | PInt int | PStr string

fun get_int :: "int field \<Rightarrow> pyval \<Rightarrow> pyval" where
  "get_int Absent d = d"
| "get_int Null d = PNone"
| "get_int (Val v) d = PInt v"

fun py_str :: "pyval \<Rightarrow> string" where
  "py_str PNone = ''None''"
| "py_str (PInt i) = str_int i"
| "py_str (PStr s) = s"

text \<open>\<open>int(x)\<close> for an int or \<open>None\<close>, and the truth value of such an \<open>x\<close>.\<close>

fun py_int :: "int option \<Rightarrow> pyexc + int" where
  "py_int None = Inl (Exception (''int() argument must be a string, a bytes-like object '' @
     ''or a real number, not '' @ [CHR 0x27] @ ''NoneType'' @ [CHR 0x27]))"
| "py_int (Some i) = Inr i"

fun truthy :: "int option \<Rightarrow> bool" where
  "truthy None = False"
| "truthy (Some i) = (i \<noteq> 0)"

text \<open>
  The rows \<open>show_video_info\<close> adds to its table, by their labels. A cell passed as \<open>None\<close>
  is \<open>None\<close> here. The table is printed last: the title, uploader and upload date are
  the metadata's own strings and are rendered as markup then; the other three cells are
  digits, separators and fixed words. A call that raises shows no table.
\<close>

record video_info_table =
  title_row :: "string option"
  uploader_row :: "string option"
  duration_row :: string
  views_row :: string
  filesize_row :: string
  upload_date_row :: "string option"

definition show_video_info :: "terminal \<Rightarrow> info \<Rightarrow> pyexc + video_info_table" where
  "show_video_info tm md =
     (let duration' = get (duration md) 0 in
      case py_int duration' of
        Inl e \<Rightarrow> Inl e
      | Inr d \<Rightarrow>
          let minutes = d div 60;
              seconds = d mod 60;
              duration_str = (if truthy duration'
                              then str_int minutes @ ''m '' @ str_int seconds @ ''s''
                              else ''N/A'');
              views = get_int (view_count md) (PStr ''N/A'');
              views' = (case views of PInt v \<Rightarrow> PStr (format_comma v) | _ \<Rightarrow> views);
              filesize' = get_int (filesize md) (get_int (filesize_approx md) (PStr ''N/A''));
              filesize'' = (case filesize' of
                              PInt f \<Rightarrow>
                                (case true_div_mib f of
                                   Inl e \<Rightarrow> Inl e
                                 | Inr filesize_mb \<Rightarrow> Inr (PStr (format_2f filesize_mb @ '' MB'')))
                            | _ \<Rightarrow> Inr filesize')
          in case filesize'' of
               Inl e \<Rightarrow> Inl e
             | Inr fs \<Rightarrow>
                 let table = \<lparr> title_row = get (title md) ''N/A'',
                               uploader_row = get (uploader md) ''N/A'',
                               duration_row = duration_str,
                               views_row = py_str views',
                               filesize_row = py_str fs,
                               upload_date_row = get (upload_date md) ''N/A'' \<rparr>
                 in case render_cells tm
                           [title_row table, uploader_row table, upload_date_row table] of
                      Inl e \<Rightarrow> Inl e
                    | Inr _ \<Rightarrow> Inr table)"

text \<open>
  \<open>show_error_message\<close>: the panel's text is an f-string around the error, printed as
  markup. The emoji and bullets are their UTF-8 bytes.
\<close>

definition error_panel :: "string \<Rightarrow> string" where
  "error_panel error =
     ''[bold red]'' @ [CHR 0xE2, CHR 0x9D, CHR 0x8C] @ '' Download Failed[/bold red]'' @
     [CHR 0x0A, CHR 0x0A] @
     ''[yellow]Error Details:[/yellow]'' @ [CHR 0x0A] @ error @ [CHR 0x0A, CHR 0x0A] @
     ''[cyan]'' @ [CHR 0xF0, CHR 0x9F, CHR 0x94, CHR 0xA7] @ '' Troubleshooting Tips:[/cyan]'' @
     [CHR 0x0A] @
     ''[white]'' @ [CHR 0xE2, CHR 0x80, CHR 0xA2] @
     '' Verify the URL is correct and complete'' @ [CHR 0x0A] @
     [CHR 0xE2, CHR 0x80, CHR 0xA2] @
     '' Check if the video is public and accessible'' @ [CHR 0x0A] @
     [CHR 0xE2, CHR 0x80, CHR 0xA2] @
     '' Ensure you have stable internet connection'' @ [CHR 0x0A] @
     [CHR 0xE2, CHR 0x80, CHR 0xA2] @
     '' Try updating yt-dlp: pip install -U yt-dlp'' @ [CHR 0x0A] @
     [CHR 0xE2, CHR 0x80, CHR 0xA2] @
     '' Some platforms may require authentication[/white]''"

definition show_error_message :: "terminal \<Rightarrow> string \<Rightarrow> pyexc + unit" where
  "show_error_message tm error = render_markup tm (error_panel error)"

section \<open>Collaborators: extractor, terminal, console\<close>

text \<open>
  The options dict \<open>configure_ydl_options\<close> builds. Its \<open>progress_hooks\<close> entry is a fresh
  \<open>DownloadProgressHook\<close>, which the extractor calls during a transfer and which only draws
  a progress bar; it is part of the extractor's \<open>download\<close> below.
\<close>

record ydl_options =
  outtmpl :: string
  format :: string
  quiet :: bool
  no_warnings :: bool
  nocheckcertificate :: bool
  user_agent :: string

text \<open>
  The extractor is a parameter: what \<open>YoutubeDL(opts).extract_info(url, download=False)\<close>,
  \<open>YoutubeDL(opts).download([url])\<close> and \<open>prepare_filename(info)\<close> return or raise.
\<close>

record extractor =
  extract_info :: "ydl_options \<Rightarrow> string \<Rightarrow> pyexc + info"
  download :: "ydl_options \<Rightarrow> string \<Rightarrow> pyexc + unit"
  prepare_filename :: "ydl_options \<Rightarrow> info \<Rightarrow> pyexc + string"

datatype prompt =
  Select_platform | Enter_url | Proceed_with_download | Continue_anyway | Download_another

text \<open>The lines and panels printed with \<open>console.print\<close>, without their markup.\<close>

datatype message =
  Blank
| Download_cancelled
| Url_cannot_be_empty
| Platform_warning string string
| Farewell

text \<open>
  Everything the program shows or asks of a collaborator is recorded, in order; a
  display that raises is not recorded.
  \<open>Enter_download_video\<close> records a call of \<open>download_video\<close> with its arguments.
  \<open>Success_message\<close> carries the output directory and the filename the extractor resolved,
  of which the panel shows the last path component.
\<close>

datatype event =
  Banner
| Platforms_menu "(string \<times> PlatformConfig) list"
| Platform_guide PlatformConfig
| Print message
| Ask prompt
| Enter_download_video string PlatformConfig
| Status
| Extract_info ydl_options string
| Video_info video_info_table
| Download ydl_options string
| Prepare_filename info
| Success_message string string
| Error_message string
| Statistics "(string \<times> string) list"

section \<open>Download orchestrator\<close>

record VideoDownloader =
  output_dir :: string
  platforms :: "(string \<times> PlatformConfig) list"
  download_history :: "string option list"

text \<open>
  \<open>download_history\<close> is annotated \<open>List[str]\<close>; the entries appended are what
  \<open>info.get('title', 'Unknown')\<close> returns, which is \<open>None\<close> for a title present as \<open>None\<close>.
\<close>

definition VideoDownloader_init :: "string \<Rightarrow> VideoDownloader" where
  "VideoDownloader_init dir =
     \<lparr> output_dir = dir, platforms = get_all, download_history = [] \<rparr>"

record world =
  downloader :: VideoDownloader
  tty :: terminal
  trace :: "event list"

definition emit :: "event \<Rightarrow> world \<Rightarrow> world" where
  "emit e w = w\<lparr>trace := trace w @ [e]\<rparr>"

definition Prompt_ask :: "prompt \<Rightarrow> world \<Rightarrow> (pyexc + string) \<times> world" where
  "Prompt_ask p w =
     (let w' = emit (Ask p) w in
      case prompt_answers (tty w') of
        [] \<Rightarrow> (Inl (Exception ''EOF when reading a line''), w')
      | a # rest \<Rightarrow> (a, w'\<lparr>tty := (tty w')\<lparr>prompt_answers := rest\<rparr>\<rparr>))"

definition Confirm_ask :: "prompt \<Rightarrow> world \<Rightarrow> (pyexc + bool) \<times> world" where
  "Confirm_ask p w =
     (let w' = emit (Ask p) w in
      case confirm_answers (tty w') of
        [] \<Rightarrow> (Inl (Exception ''EOF when reading a line''), w')
      | a # rest \<Rightarrow> (a, w'\<lparr>tty := (tty w')\<lparr>confirm_answers := rest\<rparr>\<rparr>))"

definition configure_ydl_options :: "VideoDownloader \<Rightarrow> PlatformConfig \<Rightarrow> ydl_options" where
  "configure_ydl_options self platform =
     \<lparr> outtmpl = output_dir self @ ''/%(title)s.%(ext)s'',
       format = format_preference platform,
       quiet = True,
       no_warnings = True,
       nocheckcertificate = True,
       user_agent = ''Mozilla/5.0 (Windows NT 10.0; Win64; x64) AppleWebKit/537.36'' \<rparr>"

text \<open>
  The handler \<open>except Exception as e\<close> of \<open>download_video\<close>: an \<open>Exception\<close> is shown in the
  error panel and the call returns \<open>False\<close>; anything else propagates. So does what the
  handler itself raises: the \<open>MarkupError\<close> of a panel that does not render.
\<close>

definition except_Exception :: "pyexc \<Rightarrow> world \<Rightarrow> (pyexc + bool) \<times> world" where
  "except_Exception e w =
     (case e of
        Exception msg \<Rightarrow>
          (case show_error_message (tty w) msg of
             Inl e' \<Rightarrow> (Inl e', w)
           | Inr _ \<Rightarrow> (Inr False, emit (Error_message msg) w))
      | KeyboardInterrupt \<Rightarrow> (Inl KeyboardInterrupt, w))"

definition history_append :: "string option \<Rightarrow> world \<Rightarrow> world" where
  "history_append t w =
     w\<lparr>downloader := (downloader w)\<lparr>download_history := download_history (downloader w) @ [t]\<rparr>\<rparr>"

definition download_video ::
  "extractor \<Rightarrow> string \<Rightarrow> PlatformConfig \<Rightarrow> world \<Rightarrow> (pyexc + bool) \<times> world" where
  "download_video ydl url platform w0 =
     (let w1 = emit (Enter_download_video url platform) w0;
          ydl_opts = configure_ydl_options (downloader w1) platform;
          w2 = emit (Extract_info ydl_opts url) (emit Status w1)
      in
      case extract_info ydl ydl_opts url of
        Inl e \<Rightarrow> except_Exception e w2
      | Inr md \<Rightarrow>
          (case show_video_info (tty w2) md of
             Inl e \<Rightarrow> except_Exception e w2
           | Inr table \<Rightarrow>
               (case Confirm_ask Proceed_with_download
                       (emit (Print Blank) (emit (Video_info table) w2)) of
                  (Inl e, w3) \<Rightarrow> except_Exception e w3
                | (Inr proceed, w3) \<Rightarrow>
                    if \<not> proceed then (Inr False, emit (Print Download_cancelled) w3)
                    else
                      let w4 = emit (Download ydl_opts url) (emit (Print Blank) w3) in
                      case download ydl ydl_opts url of
                        Inl e \<Rightarrow> except_Exception e w4
                      | Inr _ \<Rightarrow>
                          let w5 = emit (Prepare_filename md) w4 in
                          case prepare_filename ydl ydl_opts md of
                            Inl e \<Rightarrow> except_Exception e w5
                          | Inr filename \<Rightarrow>
                              let w6 = emit (Success_message (output_dir (downloader w5)) filename) w5
                              in (Inr True, history_append (get (title md) ''Unknown'') w6))))"

text \<open>
  The rows of the statistics table: \<open>enumerate(self.download_history, i)\<close>. \<open>len(title)\<close>
  raises \<open>TypeError\<close> on an entry that is \<open>None\<close>. The table is printed after a blank
  line, and its title cells are rendered as markup then.
\<close>

fun statistics_rows :: "nat \<Rightarrow> string option list \<Rightarrow> pyexc + (string \<times> string) list" where
  "statistics_rows i [] = Inr []"
| "statistics_rows i (None # ts) =
     Inl (Exception (''object of type '' @ [CHR 0x27] @ ''NoneType'' @ [CHR 0x27] @
                     '' has no len()''))"
| "statistics_rows i (Some t # ts) =
     (case statistics_rows (Suc i) ts of
        Inl e \<Rightarrow> Inl e
      | Inr rows \<Rightarrow> Inr ((str_nat i, if length t > 50 then take 47 t @ ''...'' else t) # rows))"

definition show_statistics :: "world \<Rightarrow> (pyexc + unit) \<times> world" where
  "show_statistics w =
     (if download_history (downloader w) = [] then (Inr (), w)
      else
        case statistics_rows 1 (download_history (downloader w)) of
          Inl e \<Rightarrow> (Inl e, w)
        | Inr rows \<Rightarrow>
            (case render_cells (tty w) (map (\<lambda>row. Some (snd row)) rows) of
               Inl e \<Rightarrow> (Inl e, emit (Print Blank) w)
             | Inr _ \<Rightarrow> (Inr (), emit (Statistics rows) (emit (Print Blank) w))))"

section \<open>Application loop\<close>

datatype flow = Continue | Break | Raised pyexc

text \<open>
  The exit path of \<open>run\<close>, written out twice in the source (after the choice \<open>'0'\<close> and
  after a declined "Download another video?"): the statistics if there is any history,
  the farewell panel, \<open>break\<close>.
\<close>

definition exit_path :: "world \<Rightarrow> flow \<times> world" where
  "exit_path w =
     (case (if download_history (downloader w) \<noteq> [] then show_statistics w else (Inr (), w)) of
        (Inl e, w1) \<Rightarrow> (Raised e, w1)
      | (Inr _, w1) \<Rightarrow> (Break, emit (Print Blank) (emit (Print Farewell) (emit (Print Blank) w1))))"

text \<open>
  The end of the loop body: call \<open>download_video\<close>, ignore what it returns, ask whether
  to go on.
\<close>

definition download_step :: "extractor \<Rightarrow> string \<Rightarrow> PlatformConfig \<Rightarrow> world \<Rightarrow> flow \<times> world" where
  "download_step ydl url platform w =
     (case download_video ydl url platform (emit (Print Blank) w) of
        (Inl e, w1) \<Rightarrow> (Raised e, w1)
      | (Inr _, w1) \<Rightarrow>
          (case Confirm_ask Download_another (emit (Print Blank) w1) of
             (Inl e, w2) \<Rightarrow> (Raised e, w2)
           | (Inr again, w2) \<Rightarrow> if \<not> again then exit_path w2 else (Continue, w2)))"

text \<open>
  The platform check: \<open>if detected_platform and detected_platform.name != platform.name\<close>.
  A \<open>PlatformConfig\<close> instance is always true.
\<close>

definition platform_check :: "extractor \<Rightarrow> string \<Rightarrow> PlatformConfig \<Rightarrow> world \<Rightarrow> flow \<times> world" where
  "platform_check ydl url platform w =
     (case detect_platform url of
        None \<Rightarrow> download_step ydl url platform w
      | Some detected_platform \<Rightarrow>
          if name detected_platform \<noteq> name platform then
            (case Confirm_ask Continue_anyway
                    (emit (Print (Platform_warning (name detected_platform) (name platform))) w) of
               (Inl e, w1) \<Rightarrow> (Raised e, w1)
             | (Inr go_on, w1) \<Rightarrow>
                 if \<not> go_on then (Continue, w1) else download_step ydl url platform w1)
          else download_step ydl url platform w)"

text \<open>
  One pass through the body of \<open>while True\<close>. \<open>self.platforms[choice]\<close> raises \<open>KeyError\<close>
  on a key that is not in the dict.
\<close>

definition loop_body :: "extractor \<Rightarrow> world \<Rightarrow> flow \<times> world" where
  "loop_body ydl w0 =
     (case Prompt_ask Select_platform
             (emit (Print Blank) (emit (Platforms_menu (platforms (downloader w0))) w0)) of
        (Inl e, w1) \<Rightarrow> (Raised e, w1)
      | (Inr choice, w1) \<Rightarrow>
          if choice = ''0'' then exit_path w1
          else
            (case map_of (platforms (downloader w1)) choice of
               None \<Rightarrow> (Raised (Exception ([CHR 0x27] @ choice @ [CHR 0x27])), w1)
             | Some platform \<Rightarrow>
                 (case Prompt_ask Enter_url
                         (emit (Print Blank) (emit (Platform_guide platform) w1)) of
                    (Inl e, w2) \<Rightarrow> (Raised e, w2)
                  | (Inr answer, w2) \<Rightarrow>
                      let url = strip answer in
                      if url = [] then (Continue, emit (Print Url_cannot_be_empty) w2)
                      else platform_check ydl url platform w2)))"

section \<open>Observing a run\<close>

text \<open>
  What a call added to the record of events, and the kinds of event the properties
  below count: error panels, transfers, statistics tables and calls of
  \<open>download_video\<close>.
\<close>

definition new_events :: "world \<Rightarrow> world \<Rightarrow> event list" where
  "new_events w w' = drop (length (trace w)) (trace w')"

fun is_error_view :: "event \<Rightarrow> bool" where
  "is_error_view (Error_message msg) = True"
| "is_error_view e = False"

fun is_fetch :: "event \<Rightarrow> bool" where
  "is_fetch (Download opts url) = True"
| "is_fetch e = False"

fun is_statistics :: "event \<Rightarrow> bool" where
  "is_statistics (Statistics rows) = True"
| "is_statistics e = False"

fun is_call :: "event \<Rightarrow> bool" where
  "is_call (Enter_download_video url platform) = True"
| "is_call e = False"

section \<open>Sample inputs\<close>

text \<open>
  A metadata dict, an extractor that succeeds with it, an extractor whose every call
  raises, and a fresh downloader in \<open>downloads\<close> with a given terminal script and
  history. The sample terminal fails to render exactly the texts that hold the closing
  tag \<open>[/b]\<close>: none of the texts below opens a \<open>[b]\<close> tag, so these are texts on which
  the toolkit raises \<open>MarkupError\<close> (its message is given without the position).
\<close>

definition sample_markup_error :: "string \<Rightarrow> string option" where
  "sample_markup_error s =
     (if str_contains s ''[/b]''
      then Some (''closing tag '' @ [CHR 0x27] @ ''[/b]'' @ [CHR 0x27] @ '' doesn'' @
                 [CHR 0x27] @ ''t match any open tag'')
      else None)"

definition sample_info :: info where
  "sample_info = \<lparr> title = Val ''Demo'', uploader = Val ''someone'', duration = Val 125,
     view_count = Val 1234567, filesize = Val 10485760, filesize_approx = Absent,
     upload_date = Val ''20240101'' \<rparr>"

definition sample_ydl :: extractor where
  "sample_ydl = \<lparr> extract_info = (\<lambda>opts url. Inr sample_info),
     download = (\<lambda>opts url. Inr ()),
     prepare_filename = (\<lambda>opts md. Inr ''downloads/Demo.mp4'') \<rparr>"

definition failing_ydl :: extractor where
  "failing_ydl = \<lparr> extract_info = (\<lambda>opts url. Inl (Exception ''Unsupported URL'')),
     download = (\<lambda>opts url. Inl (Exception ''Unsupported URL'')),
     prepare_filename = (\<lambda>opts md. Inr ''downloads/Demo.mp4'') \<rparr>"

definition sample_world ::
  "(pyexc + string) list \<Rightarrow> (pyexc + bool) list \<Rightarrow> string option list \<Rightarrow> world" where
  "sample_world answers confirms history =
     \<lparr> downloader = (VideoDownloader_init ''downloads'')\<lparr>download_history := history\<rparr>,
       tty = \<lparr> prompt_answers = answers, confirm_answers = confirms,
               markup_error = sample_markup_error \<rparr>,
       trace = [] \<rparr>"

text \<open>
  An extractor whose probe fails with a message that quotes the URL, as the extractor's
  own "is not a valid URL" error does, and one whose metadata holds the title \<open>None\<close>.
\<close>

definition quoting_ydl :: extractor where
  "quoting_ydl = \<lparr> extract_info = (\<lambda>opts url. Inl (Exception
       (''ERROR: [generic] '' @ [CHR 0x27] @ url @ [CHR 0x27] @ '' is not a valid URL''))),
     download = (\<lambda>opts url. Inr ()),
     prepare_filename = (\<lambda>opts md. Inr ''downloads/Demo.mp4'') \<rparr>"

definition untitled_info :: info where
  "untitled_info = sample_info\<lparr>title := Null\<rparr>"

definition untitled_ydl :: extractor where
  "untitled_ydl = \<lparr> extract_info = (\<lambda>opts url. Inr untitled_info),
     download = (\<lambda>opts url. Inr ()),
     prepare_filename = (\<lambda>opts md. Inr ''downloads/Demo.mp4'') \<rparr>"

section \<open>The loop as a whole\<close>

text \<open>
  The loop consumes the script of prompt answers: every pass that continues has read
  at least one of them, so \<open>while True\<close> over a finite script ends.
\<close>

lemma tty_emit [simp]: "tty (emit e w) = tty w"
  by (simp add: emit_def)

lemma downloader_emit [simp]: "downloader (emit e w) = downloader w"
  by (simp add: emit_def)

lemma trace_emit [simp]: "trace (emit e w) = trace w @ [e]"
  by (simp add: emit_def)

lemma tty_history_append [simp]: "tty (history_append t w) = tty w"
  by (simp add: history_append_def)

lemma trace_history_append [simp]: "trace (history_append t w) = trace w"
  by (simp add: history_append_def)

lemma Confirm_ask_prompts:
  "Confirm_ask p w = (r, w') \<Longrightarrow> prompt_answers (tty w') = prompt_answers (tty w)"
  by (auto simp: Confirm_ask_def Let_def split: list.splits)

lemma Prompt_ask_prompts:
  "Prompt_ask p w = (Inr a, w') \<Longrightarrow>
     length (prompt_answers (tty w')) < length (prompt_answers (tty w))"
  by (auto simp: Prompt_ask_def Let_def split: list.splits)

lemma except_Exception_tty: "except_Exception e w = (r, w') \<Longrightarrow> tty w' = tty w"
  by (auto simp: except_Exception_def split: pyexc.splits sum.splits)

lemma download_video_prompts:
  "download_video ydl url platform w = (r, w') \<Longrightarrow>
     prompt_answers (tty w') = prompt_answers (tty w)"
  by (auto simp: download_video_def Let_def split: sum.splits prod.splits if_splits
      dest!: except_Exception_tty Confirm_ask_prompts)

lemma exit_path_not_Continue: "exit_path w = (f, w') \<Longrightarrow> f \<noteq> Continue"
  by (auto simp: exit_path_def split: if_splits sum.splits prod.splits)

lemma download_step_prompts:
  "download_step ydl url platform w = (Continue, w') \<Longrightarrow>
     prompt_answers (tty w') = prompt_answers (tty w)"
  by (auto simp: download_step_def split: sum.splits prod.splits if_splits
      dest!: download_video_prompts Confirm_ask_prompts exit_path_not_Continue)

lemma platform_check_prompts:
  "platform_check ydl url platform w = (Continue, w') \<Longrightarrow>
     prompt_answers (tty w') = prompt_answers (tty w)"
  by (auto simp: platform_check_def split: option.splits sum.splits prod.splits if_splits
      dest!: download_step_prompts Confirm_ask_prompts)

lemma loop_body_prompts:
  assumes "loop_body ydl w = (Continue, w')"
  shows "length (prompt_answers (tty w')) < length (prompt_answers (tty w))"
  using assms
  by (auto simp: loop_body_def Let_def split: option.splits sum.splits prod.splits if_splits
      dest!: platform_check_prompts Prompt_ask_prompts exit_path_not_Continue)

function run_loop :: "extractor \<Rightarrow> world \<Rightarrow> (pyexc + unit) \<times> world" where
  "run_loop ydl w =
     (case loop_body ydl w of
        (Continue, w') \<Rightarrow> run_loop ydl w'
      | (Break, w') \<Rightarrow> (Inr (), w')
      | (Raised e, w') \<Rightarrow> (Inl e, w'))"
  by pat_completeness auto
termination
  by (relation "measure (\<lambda>(ydl, w). length (prompt_answers (tty w)))")
    (auto dest: loop_body_prompts [OF sym])

declare run_loop.simps [simp del]

definition run :: "extractor \<Rightarrow> world \<Rightarrow> (pyexc + unit) \<times> world" where
  "run ydl w = run_loop ydl (emit Banner w)"

section \<open>Properties of the catalog\<close>

lemma startswith_iff: "startswith s d \<longleftrightarrow> (\<exists>suf. s = d @ suf)"
  by (induction s d rule: startswith.induct) auto

lemma str_contains_iff: "str_contains s d \<longleftrightarrow> (\<exists>pre suf. s = pre @ d @ suf)"
proof (induction s)
  case Nil
  show ?case by auto
next
  case (Cons c cs)
  show ?case
  proof
    assume "str_contains (c # cs) d"
    then consider "startswith (c # cs) d" | "str_contains cs d" by auto
    then show "\<exists>pre suf. c # cs = pre @ d @ suf"
    proof cases
      case 1
      then obtain suf where "c # cs = d @ suf" using startswith_iff by blast
      then have "c # cs = [] @ d @ suf" by simp
      then show ?thesis by blast
    next
      case 2
      then obtain pre suf where "cs = pre @ d @ suf" using Cons.IH by blast
      then have "c # cs = (c # pre) @ d @ suf" by simp
      then show ?thesis by blast
    qed
  next
    assume "\<exists>pre suf. c # cs = pre @ d @ suf"
    then obtain pre suf where eq: "c # cs = pre @ d @ suf" by blast
    show "str_contains (c # cs) d"
    proof (cases pre)
      case Nil
      with eq have "startswith (c # cs) d" using startswith_iff by auto
      then show ?thesis by simp
    next
      case (Cons p pre')
      with eq have "cs = pre' @ d @ suf" by simp
      then have "str_contains cs d" using Cons.IH by blast
      then show ?thesis by simp
    qed
  qed
qed

lemma catalog_domains_lower:
  "p \<in> set (dict_values get_all) \<Longrightarrow> d \<in> set (domains p) \<Longrightarrow> lower d = d"
  by (auto simp: dict_values_def get_all_def YOUTUBE_def INSTAGRAM_def FACEBOOK_def TWITTER_def
      PINTEREST_def lower_def lower_char_def)

lemma any_domain_in_iff:
  "any_domain_in ds url \<longleftrightarrow> (\<exists>d \<in> set ds. str_contains (lower url) d)"
  by (induction ds) auto

lemma detect_loop_find:
  "detect_loop ps url = find (\<lambda>p. any_domain_in (domains p) url) ps"
  by (induction ps) auto

lemma detect_platform_find:
  "detect_platform url =
     find (\<lambda>p. \<exists>d \<in> set (domains p). \<exists>pre suf. lower url = pre @ lower d @ suf)
       (dict_values get_all)"
  unfolding detect_platform_def detect_loop_find
  by (rule find_cong) (auto simp: any_domain_in_iff str_contains_iff catalog_domains_lower)

text \<open>
  Claim C3. \<open>detect_platform url\<close> is the first descriptor, in the insertion order of the
  catalog, one of whose domains is contained in the URL when case is ignored, and it is
  \<open>None\<close> exactly when no domain of any descriptor is contained in the URL. It is the
  YouTube descriptor for \<open>https://youtu.be/dQw4w9WgXcQ\<close> and
  \<open>https://www.youtube.com/watch?v=abc\<close>, the Instagram descriptor for
  \<open>https://www.instagram.com/reel/XYZ/\<close> and \<open>None\<close> for \<open>https://example.com/video\<close>.
\<close>

theorem detect_platform_first_match:
  "(detect_platform url = None \<longleftrightarrow>
      (\<forall>p \<in> set (dict_values get_all). \<forall>d \<in> set (domains p).
         \<not> (\<exists>pre suf. lower url = pre @ lower d @ suf))) \<and>
   (\<forall>p. detect_platform url = Some p \<longleftrightarrow>
      (\<exists>i < length (dict_values get_all).
         dict_values get_all ! i = p \<and>
         (\<exists>d \<in> set (domains p). \<exists>pre suf. lower url = pre @ lower d @ suf) \<and>
         (\<forall>j < i. \<forall>d \<in> set (domains (dict_values get_all ! j)).
            \<not> (\<exists>pre suf. lower url = pre @ lower d @ suf)))) \<and>
   dict_values get_all = [YOUTUBE, INSTAGRAM, FACEBOOK, TWITTER, PINTEREST] \<and>
   detect_platform ''https://youtu.be/dQw4w9WgXcQ'' = Some YOUTUBE \<and>
   detect_platform ''https://www.youtube.com/watch?v=abc'' = Some YOUTUBE \<and>
   detect_platform ''https://www.instagram.com/reel/XYZ/'' = Some INSTAGRAM \<and>
   detect_platform ''https://example.com/video'' = None"
proof -
  let ?hit = "\<lambda>p. \<exists>d \<in> set (domains p). \<exists>pre suf. lower url = pre @ lower d @ suf"
  have f: "detect_platform url = find ?hit (dict_values get_all)"
    by (rule detect_platform_find)
  have none: "detect_platform url = None \<longleftrightarrow>
      (\<forall>p \<in> set (dict_values get_all). \<forall>d \<in> set (domains p).
         \<not> (\<exists>pre suf. lower url = pre @ lower d @ suf))"
    unfolding f find_None_iff by blast
  have some: "\<forall>p. detect_platform url = Some p \<longleftrightarrow>
      (\<exists>i < length (dict_values get_all).
         dict_values get_all ! i = p \<and> ?hit p \<and>
         (\<forall>j < i. \<forall>d \<in> set (domains (dict_values get_all ! j)).
            \<not> (\<exists>pre suf. lower url = pre @ lower d @ suf)))"
    unfolding f find_Some_iff by blast
  have vals: "dict_values get_all = [YOUTUBE, INSTAGRAM, FACEBOOK, TWITTER, PINTEREST]"
    by (simp add: dict_values_def get_all_def)
  have e1: "detect_platform ''https://youtu.be/dQw4w9WgXcQ'' = Some YOUTUBE"
    by code_simp
  have e2: "detect_platform ''https://www.youtube.com/watch?v=abc'' = Some YOUTUBE"
    by code_simp
  have e3: "detect_platform ''https://www.instagram.com/reel/XYZ/'' = Some INSTAGRAM"
    by code_simp
  have e4: "detect_platform ''https://example.com/video'' = None"
    by code_simp
  from none some vals e1 e2 e3 e4 show ?thesis by (intro conjI)
qed

text \<open>
  The characterisation at an upper-case Facebook URL: detection finds Facebook, so
  Facebook is in the catalog and one of its domains is contained in the lowered URL.
\<close>

theorem detect_platform_first_match_witness:
  "detect_platform ''HTTPS://FB.WATCH/abc'' = Some FACEBOOK \<and>
   (\<exists>i < length (dict_values get_all).
      dict_values get_all ! i = FACEBOOK \<and>
      (\<exists>d \<in> set (domains FACEBOOK). \<exists>pre suf.
         lower ''HTTPS://FB.WATCH/abc'' = pre @ lower d @ suf))"
proof -
  have h: "detect_platform ''HTTPS://FB.WATCH/abc'' = Some FACEBOOK"
    by code_simp
  from detect_platform_first_match [of "''HTTPS://FB.WATCH/abc''"]
  have "detect_platform ''HTTPS://FB.WATCH/abc'' = Some FACEBOOK \<longleftrightarrow>
      (\<exists>i < length (dict_values get_all).
         dict_values get_all ! i = FACEBOOK \<and>
         (\<exists>d \<in> set (domains FACEBOOK). \<exists>pre suf.
            lower ''HTTPS://FB.WATCH/abc'' = pre @ lower d @ suf) \<and>
         (\<forall>j < i. \<forall>d \<in> set (domains (dict_values get_all ! j)).
            \<not> (\<exists>pre suf. lower ''HTTPS://FB.WATCH/abc'' = pre @ lower d @ suf)))"
    by blast
  with h show ?thesis by blast
qed

lemma catalog_entries_ok:
  "\<forall>(k, p) \<in> set get_all. domains p \<noteq> [] \<and>
     (\<forall>e \<in> set (examples p). \<exists>d \<in> set (domains p). str_contains e d)"
  by code_simp

text \<open>
  Claim C10. The catalog's keys are \<open>'1'\<close> to \<open>'5'\<close>, and each of them maps to a descriptor
  whose domain list is not empty and each of whose example URLs contains one of the
  descriptor's own domains as a substring.
\<close>

theorem catalog_examples_contain_domains:
  "map fst get_all = [''1'', ''2'', ''3'', ''4'', ''5''] \<and>
   (\<forall>k \<in> set [''1'', ''2'', ''3'', ''4'', ''5''].
      \<exists>p. map_of get_all k = Some p \<and> domains p \<noteq> [] \<and>
        (\<forall>e \<in> set (examples p). \<exists>d \<in> set (domains p). \<exists>pre suf. e = pre @ d @ suf))"
proof -
  have keys: "map fst get_all = [''1'', ''2'', ''3'', ''4'', ''5'']"
    by (simp add: get_all_def)
  have "\<exists>p. map_of get_all k = Some p \<and> domains p \<noteq> [] \<and>
        (\<forall>e \<in> set (examples p). \<exists>d \<in> set (domains p). \<exists>pre suf. e = pre @ d @ suf)"
    if "k \<in> set [''1'', ''2'', ''3'', ''4'', ''5'']" for k
  proof -
    from that keys have "k \<in> fst ` set get_all"
      by (metis set_map)
    then have "map_of get_all k \<noteq> None"
      by (simp add: map_of_eq_None_iff)
    then obtain p where p: "map_of get_all k = Some p" by blast
    then have "(k, p) \<in> set get_all" by (rule map_of_SomeD)
    with catalog_entries_ok have "domains p \<noteq> [] \<and>
        (\<forall>e \<in> set (examples p). \<exists>d \<in> set (domains p). str_contains e d)"
      by blast
    with p show ?thesis unfolding str_contains_iff by blast
  qed
  with keys show ?thesis by blast
qed

text \<open>The key \<open>'3'\<close> and the \<open>fb.watch\<close> example of Facebook.\<close>

theorem catalog_examples_contain_domains_witness:
  "map_of get_all ''3'' = Some FACEBOOK \<and>
   (\<exists>d \<in> set (domains FACEBOOK). \<exists>pre suf. ''https://fb.watch/xxxxxxxxxxx/'' = pre @ d @ suf)"
proof -
  have k: "''3'' \<in> set [''1'', ''2'', ''3'', ''4'', ''5'']" by simp
  have m: "map_of get_all ''3'' = Some FACEBOOK" by (simp add: get_all_def)
  have e: "''https://fb.watch/xxxxxxxxxxx/'' \<in> set (examples FACEBOOK)"
    by (simp add: FACEBOOK_def)
  from catalog_examples_contain_domains k
  obtain p where "map_of get_all ''3'' = Some p"
    and "\<forall>e \<in> set (examples p). \<exists>d \<in> set (domains p). \<exists>pre suf. e = pre @ d @ suf"
    by blast
  with m e show ?thesis by auto
qed

section \<open>Properties of the download orchestrator\<close>

lemma new_events_append [simp]: "trace w' = trace w @ evs \<Longrightarrow> new_events w w' = evs"
  by (simp add: new_events_def)

lemma except_Exception_shown:
  "markup_error (tty w) (error_panel msg) = None \<Longrightarrow>
     except_Exception (Exception msg) w = (Inr False, emit (Error_message msg) w)"
  by (simp add: except_Exception_def show_error_message_def render_markup_def)

lemma except_Exception_unrendered:
  "markup_error (tty w) (error_panel msg) = Some m \<Longrightarrow>
     except_Exception (Exception msg) w = (Inl (Exception m), w)"
  by (simp add: except_Exception_def show_error_message_def render_markup_def)

lemma except_Exception_outcome:
  assumes "except_Exception e w = (r, w')"
  shows "r \<noteq> Inr True \<and> downloader w' = downloader w \<and> tty w' = tty w \<and>
         (trace w' = trace w \<or> (\<exists>msg. trace w' = trace w @ [Error_message msg]))"
  using assms by (auto simp: except_Exception_def split: pyexc.splits sum.splits)

text \<open>
  What holds of a failing probe: the call returns \<open>False\<close> with one error panel when the
  panel renders, and the \<open>MarkupError\<close> of the panel leaves the call when it does not.
\<close>

lemma download_video_probe_error_shown:
  assumes "extract_info ydl (configure_ydl_options (downloader w) platform) url
             = Inl (Exception msg)"
    and "markup_error (tty w) (error_panel msg) = None"
  shows "\<exists>w'. download_video ydl url platform w = (Inr False, w') \<and>
           new_events w w' =
             [Enter_download_video url platform, Status,
              Extract_info (configure_ydl_options (downloader w) platform) url,
              Error_message msg] \<and>
           length (filter is_error_view (new_events w w')) = 1 \<and>
           downloader w' = downloader w \<and> tty w' = tty w"
  using assms
  by (simp add: download_video_def except_Exception_shown new_events_def)

lemma download_video_probe_error_unrendered:
  assumes "extract_info ydl (configure_ydl_options (downloader w) platform) url
             = Inl (Exception msg)"
    and "markup_error (tty w) (error_panel msg) = Some m"
  shows "\<exists>w'. download_video ydl url platform w = (Inl (Exception m), w') \<and>
           new_events w w' =
             [Enter_download_video url platform, Status,
              Extract_info (configure_ydl_options (downloader w) platform) url] \<and>
           downloader w' = downloader w \<and> tty w' = tty w"
  using assms
  by (simp add: download_video_def except_Exception_unrendered new_events_def)

lemma sample_world_markup [simp]:
  "markup_error (tty (sample_world answers confirms history)) = sample_markup_error"
  by (simp add: sample_world_def)

lemma quoting_panel_unrendered:
  "sample_markup_error (error_panel (''ERROR: [generic] '' @ [CHR 0x27] @ ''[/b]'' @
      [CHR 0x27] @ '' is not a valid URL'')) =
   Some (''closing tag '' @ [CHR 0x27] @ ''[/b]'' @ [CHR 0x27] @ '' doesn'' @
         [CHR 0x27] @ ''t match any open tag'')"
  by (simp add: sample_markup_error_def error_panel_def)

text \<open>
  Claim C2. A probe that raises an extractor error is to end in \<open>False\<close>, one error panel
  and nothing propagated. It does not at the URL \<open>[/b]\<close>: the extractor's error quotes
  the URL, the error panel with that message does not render, and the \<open>MarkupError\<close>
  raised inside the handler leaves \<open>download_video\<close>. No error panel is shown.
\<close>

theorem download_video_probe_error_propagates:
  "fst (download_video quoting_ydl ''[/b]'' YOUTUBE (sample_world [] [] [Some ''Old''])) =
     Inl (Exception (''closing tag '' @ [CHR 0x27] @ ''[/b]'' @ [CHR 0x27] @ '' doesn'' @
                     [CHR 0x27] @ ''t match any open tag'')) \<and>
   new_events (sample_world [] [] [Some ''Old''])
     (snd (download_video quoting_ydl ''[/b]'' YOUTUBE (sample_world [] [] [Some ''Old'']))) =
     [Enter_download_video ''[/b]'' YOUTUBE, Status,
      Extract_info
        (configure_ydl_options (downloader (sample_world [] [] [Some ''Old''])) YOUTUBE)
        ''[/b]''] \<and>
   filter is_error_view (new_events (sample_world [] [] [Some ''Old''])
     (snd (download_video quoting_ydl ''[/b]'' YOUTUBE (sample_world [] [] [Some ''Old''])))) = []"
proof -
  let ?w = "sample_world [] [] [Some ''Old'']"
  let ?msg = "''ERROR: [generic] '' @ [CHR 0x27] @ ''[/b]'' @ [CHR 0x27] @
              '' is not a valid URL''"
  have probe: "extract_info quoting_ydl (configure_ydl_options (downloader ?w) YOUTUBE) ''[/b]''
                 = Inl (Exception ?msg)"
    by (simp add: quoting_ydl_def)
  have panel: "markup_error (tty ?w) (error_panel ?msg) =
      Some (''closing tag '' @ [CHR 0x27] @ ''[/b]'' @ [CHR 0x27] @ '' doesn'' @
            [CHR 0x27] @ ''t match any open tag'')"
    using quoting_panel_unrendered by simp
  from download_video_probe_error_unrendered [OF probe panel] show ?thesis
    by auto
qed

text \<open>
  Claim C4. When the probe succeeds, the metadata is displayed, and the answer to
  "Proceed with download?" is no, \<open>download_video\<close> returns \<open>False\<close> after the
  cancellation line: it shows no error panel, starts no transfer and leaves the history
  as it was.
\<close>

theorem download_video_declined:
  assumes "extract_info ydl (configure_ydl_options (downloader w) platform) url = Inr md"
    and "show_video_info (tty w) md = Inr table"
    and "confirm_answers (tty w) = Inr False # rest"
  shows "\<exists>w'. download_video ydl url platform w = (Inr False, w') \<and>
           new_events w w' =
             [Enter_download_video url platform, Status,
              Extract_info (configure_ydl_options (downloader w) platform) url,
              Video_info table, Print Blank, Ask Proceed_with_download,
              Print Download_cancelled] \<and>
           filter is_error_view (new_events w w') = [] \<and>
           filter is_fetch (new_events w w') = [] \<and>
           download_history (downloader w') = download_history (downloader w) \<and>
           confirm_answers (tty w') = rest"
  using assms
  by (simp add: download_video_def Confirm_ask_def new_events_def)

lemma true_div_mib_sample: "true_div_mib 10485760 = Inr (False, 10485760)"
  by (simp add: true_div_mib_def round_to_double_def bit_length.simps)

lemma format_2f_sample: "format_2f (False, 10485760) = ''10.00''"
  by (simp add: format_2f_def str_nat.simps digit_char_def)

lemma sample_cells_render:
  "sample_markup_error ''Demo'' = None" "sample_markup_error ''someone'' = None"
  "sample_markup_error ''20240101'' = None"
  by (simp_all add: sample_markup_error_def)

lemma show_video_info_sample:
  assumes "markup_error tm = sample_markup_error"
  shows "show_video_info tm sample_info =
     Inr \<lparr> title_row = Some ''Demo'', uploader_row = Some ''someone'',
           duration_row = ''2m 5s'', views_row = ''1,234,567'',
           filesize_row = ''10.00 MB'', upload_date_row = Some ''20240101'' \<rparr>"
  using assms
  by (simp add: show_video_info_def sample_info_def true_div_mib_sample format_2f_sample
      str_int_def format_comma_def group3_def str_nat.simps digit_char_def
      render_markup_def sample_cells_render)

text \<open>
  The sample extractor with a declined confirmation: no transfer, no error panel,
  the history stays empty.
\<close>

theorem download_video_declined_witness:
  "extract_info sample_ydl
     (configure_ydl_options (downloader (sample_world [] [Inr False] [])) INSTAGRAM)
     ''https://www.instagram.com/reel/XYZ/'' = Inr sample_info \<and>
   (\<exists>table. show_video_info (tty (sample_world [] [Inr False] [])) sample_info = Inr table) \<and>
   confirm_answers (tty (sample_world [] [Inr False] [])) = Inr False # [] \<and>
   (\<exists>w'. download_video sample_ydl ''https://www.instagram.com/reel/XYZ/'' INSTAGRAM
            (sample_world [] [Inr False] []) = (Inr False, w') \<and>
         filter is_fetch (new_events (sample_world [] [Inr False] []) w') = [] \<and>
         filter is_error_view (new_events (sample_world [] [Inr False] []) w') = [] \<and>
         download_history (downloader w') = [])"
proof -
  let ?w = "sample_world [] [Inr False] []"
  have h1: "extract_info sample_ydl (configure_ydl_options (downloader ?w) INSTAGRAM)
     ''https://www.instagram.com/reel/XYZ/'' = Inr sample_info"
    by (simp add: sample_ydl_def)
  have h2: "show_video_info (tty ?w) sample_info =
     Inr \<lparr> title_row = Some ''Demo'', uploader_row = Some ''someone'',
           duration_row = ''2m 5s'', views_row = ''1,234,567'',
           filesize_row = ''10.00 MB'', upload_date_row = Some ''20240101'' \<rparr>"
    by (rule show_video_info_sample) simp
  have h3: "confirm_answers (tty ?w) = Inr False # []"
    by (simp add: sample_world_def)
  have hist: "download_history (downloader ?w) = []"
    by (simp add: sample_world_def)
  from download_video_declined [OF h1 h2 h3] hist
  have "\<exists>w'. download_video sample_ydl ''https://www.instagram.com/reel/XYZ/'' INSTAGRAM ?w
            = (Inr False, w') \<and>
         filter is_fetch (new_events ?w w') = [] \<and>
         filter is_error_view (new_events ?w w') = [] \<and>
         download_history (downloader w') = []"
    by auto
  with h1 h2 h3 show ?thesis by blast
qed

text \<open>
  Claim C1. The history only grows, and by \<open>download_video\<close> alone on success. The call
  returns \<open>True\<close> exactly when the probe succeeds, the metadata is displayed, the
  confirmation is accepted and the extractor's transfer and filename resolution succeed.
  Then the history is the old one with one more entry at its end: the title of the
  metadata, or \<open>'Unknown'\<close> when the metadata has no title key (a title present as
  \<open>None\<close> is appended as it is). On every other outcome the history is unchanged.
\<close>

theorem download_video_history:
  assumes "download_video ydl url platform w = (r, w')"
  shows "(r = Inr True \<longleftrightarrow>
            (\<exists>md table rest filename.
               extract_info ydl (configure_ydl_options (downloader w) platform) url = Inr md \<and>
               show_video_info (tty w) md = Inr table \<and>
               confirm_answers (tty w) = Inr True # rest \<and>
               download ydl (configure_ydl_options (downloader w) platform) url = Inr () \<and>
               prepare_filename ydl (configure_ydl_options (downloader w) platform) md
                 = Inr filename)) \<and>
         (r = Inr True \<longrightarrow>
            (\<exists>md. extract_info ydl (configure_ydl_options (downloader w) platform) url = Inr md \<and>
               download_history (downloader w') =
                 download_history (downloader w) @
                   [case title md of Val t \<Rightarrow> Some t | Absent \<Rightarrow> Some ''Unknown'' | Null \<Rightarrow> None] \<and>
               length (download_history (downloader w')) =
                 length (download_history (downloader w)) + 1 \<and>
               last (download_history (downloader w')) =
                 (case title md of Val t \<Rightarrow> Some t | Absent \<Rightarrow> Some ''Unknown'' | Null \<Rightarrow> None))) \<and>
         (r \<noteq> Inr True \<longrightarrow> download_history (downloader w') = download_history (downloader w))"
proof (cases "extract_info ydl (configure_ydl_options (downloader w) platform) url")
  case (Inl e)
  with assms show ?thesis
    by (auto simp: download_video_def Let_def dest!: except_Exception_outcome)
next
  case probe: (Inr md)
  show ?thesis
  proof (cases "show_video_info (tty w) md")
    case (Inl e)
    with assms probe show ?thesis
      by (auto simp: download_video_def Let_def dest!: except_Exception_outcome)
  next
    case shown: (Inr table)
    show ?thesis
    proof (cases "confirm_answers (tty w)")
      case Nil
      with assms probe shown show ?thesis
        by (auto simp: download_video_def Confirm_ask_def Let_def dest!: except_Exception_outcome)
    next
      case (Cons a rest)
      show ?thesis
      proof (cases a)
        case (Inl e)
        with assms probe shown Cons show ?thesis
          by (auto simp: download_video_def Confirm_ask_def Let_def dest!: except_Exception_outcome)
      next
        case (Inr proceed)
        show ?thesis
        proof (cases proceed)
          case False
          with assms probe shown Cons Inr show ?thesis
            by (auto simp: download_video_def Confirm_ask_def Let_def)
        next
          case True
          show ?thesis
          proof (cases "download ydl (configure_ydl_options (downloader w) platform) url")
            case (Inl e)
            with assms probe shown Cons Inr True show ?thesis
              by (auto simp: download_video_def Confirm_ask_def Let_def dest!: except_Exception_outcome)
          next
            case fetched: (Inr u)
            show ?thesis
            proof (cases "prepare_filename ydl (configure_ydl_options (downloader w) platform) md")
              case (Inl e)
              with assms probe shown Cons Inr True fetched show ?thesis
                by (auto simp: download_video_def Confirm_ask_def Let_def dest!: except_Exception_outcome)
            next
              case (Inr filename)
              with assms probe shown Cons \<open>a = Inr proceed\<close> True fetched show ?thesis
                by (cases "title md")
                  (auto simp: download_video_def Confirm_ask_def history_append_def Let_def)
            qed
          qed
        qed
      qed
    qed
  qed
qed

text \<open>
  The sample extractor with an accepted confirmation: the call returns \<open>True\<close> and the
  history of one entry gains the title \<open>Demo\<close>.
\<close>

theorem download_video_history_witness:
  "fst (download_video sample_ydl ''https://youtu.be/dQw4w9WgXcQ'' YOUTUBE
          (sample_world [] [Inr True] [Some ''Old''])) = Inr True \<and>
   download_history (downloader (snd (download_video sample_ydl
          ''https://youtu.be/dQw4w9WgXcQ'' YOUTUBE (sample_world [] [Inr True] [Some ''Old''])))) =
     [Some ''Old'', Some ''Demo'']"
proof -
  let ?w = "sample_world [] [Inr True] [Some ''Old'']"
  let ?url = "''https://youtu.be/dQw4w9WgXcQ''"
  let ?R = "download_video sample_ydl ?url YOUTUBE ?w"
  have eq: "?R = (fst ?R, snd ?R)" by simp
  note main = download_video_history [OF eq]
  have probe: "extract_info sample_ydl (configure_ydl_options (downloader ?w) YOUTUBE) ?url
                 = Inr sample_info"
    by (simp add: sample_ydl_def)
  have "\<exists>md table rest filename.
          extract_info sample_ydl (configure_ydl_options (downloader ?w) YOUTUBE) ?url = Inr md \<and>
          show_video_info (tty ?w) md = Inr table \<and>
          confirm_answers (tty ?w) = Inr True # rest \<and>
          download sample_ydl (configure_ydl_options (downloader ?w) YOUTUBE) ?url = Inr () \<and>
          prepare_filename sample_ydl (configure_ydl_options (downloader ?w) YOUTUBE) md
            = Inr filename"
  proof -
    have "show_video_info (tty ?w) sample_info =
       Inr \<lparr> title_row = Some ''Demo'', uploader_row = Some ''someone'',
             duration_row = ''2m 5s'', views_row = ''1,234,567'',
             filesize_row = ''10.00 MB'', upload_date_row = Some ''20240101'' \<rparr>"
      by (rule show_video_info_sample) simp
    then show ?thesis by (simp add: sample_ydl_def sample_world_def)
  qed
  with main have ok: "fst ?R = Inr True" by blast
  with main probe have "download_history (downloader (snd ?R)) =
      download_history (downloader ?w) @
        [case title sample_info of Val t \<Rightarrow> Some t | Absent \<Rightarrow> Some ''Unknown'' | Null \<Rightarrow> None]"
    by auto
  then have "download_history (downloader (snd ?R)) = [Some ''Old'', Some ''Demo'']"
    by (simp add: sample_world_def sample_info_def)
  with ok show ?thesis by simp
qed

section \<open>Properties of the metadata display\<close>

lemma duration_125: "str_int (125 div 60) @ ''m '' @ str_int (125 mod 60) @ ''s'' = ''2m 5s''"
  by (simp add: str_int_def str_nat.simps digit_char_def)

lemma show_video_info_duration:
  assumes "show_video_info tm md = Inr table"
  shows "duration_row table =
           (case duration md of
              Val d \<Rightarrow> if d \<noteq> 0 then str_int (d div 60) @ ''m '' @ str_int (d mod 60) @ ''s''
                       else ''N/A''
            | _ \<Rightarrow> ''N/A'')"
  using assms
  by (cases "duration md")
    (auto simp: show_video_info_def Let_def split: sum.splits)

lemma show_video_info_filesize:
  assumes "show_video_info tm md = Inr table" and "filesize md = Val f"
  shows "\<exists>x. true_div_mib f = Inr x \<and> filesize_row table = format_2f x @ '' MB''"
  using assms
  by (cases "duration md")
    (auto simp: show_video_info_def Let_def split: sum.splits)

lemma show_video_info_returns:
  assumes "duration md = Val d" and "filesize md = Val f" and "true_div_mib f = Inr x"
    and "render_cells tm [get (title md) ''N/A'', get (uploader md) ''N/A'',
                          get (upload_date md) ''N/A''] = Inr ()"
  shows "\<exists>table. show_video_info tm md = Inr table"
  using assms by (simp add: show_video_info_def Let_def)

text \<open>
  Claim C7. In the table of \<open>show_video_info\<close>, a duration of 125 seconds is shown as
  \<open>2m 5s\<close>, a duration of 0 as \<open>N/A\<close>, and a file size of 10,485,760 bytes as
  \<open>10.00 MB\<close>. With these values the table is produced whenever the title, uploader and
  upload date cells render.
\<close>

theorem show_video_info_formats:
  "(show_video_info tm md = Inr table \<longrightarrow>
      (duration md = Val 125 \<longrightarrow> duration_row table = ''2m 5s'') \<and>
      (duration md = Val 0 \<longrightarrow> duration_row table = ''N/A'') \<and>
      (filesize md = Val 10485760 \<longrightarrow> filesize_row table = ''10.00 MB'')) \<and>
   (render_cells tm [get (title md) ''N/A'', get (uploader md) ''N/A'',
                     get (upload_date md) ''N/A''] = Inr () \<longrightarrow>
      (\<exists>t. show_video_info tm (md\<lparr>duration := Val 125, filesize := Val 10485760\<rparr>) = Inr t \<and>
           duration_row t = ''2m 5s'' \<and> filesize_row t = ''10.00 MB'') \<and>
      (\<exists>t. show_video_info tm (md\<lparr>duration := Val 0, filesize := Val 10485760\<rparr>) = Inr t \<and>
           duration_row t = ''N/A'' \<and> filesize_row t = ''10.00 MB''))"
proof -
  have a: "duration_row t = ''2m 5s''" if "show_video_info tm m = Inr t" "duration m = Val 125"
    for m t
    using show_video_info_duration [OF that(1)] that(2) duration_125 by simp
  have b: "duration_row t = ''N/A''" if "show_video_info tm m = Inr t" "duration m = Val 0"
    for m t
    using show_video_info_duration [OF that(1)] that(2) by simp
  have c: "filesize_row t = ''10.00 MB''"
    if "show_video_info tm m = Inr t" "filesize m = Val 10485760" for m t
    using show_video_info_filesize [OF that] true_div_mib_sample format_2f_sample by auto
  have first: "show_video_info tm md = Inr table \<longrightarrow>
      (duration md = Val 125 \<longrightarrow> duration_row table = ''2m 5s'') \<and>
      (duration md = Val 0 \<longrightarrow> duration_row table = ''N/A'') \<and>
      (filesize md = Val 10485760 \<longrightarrow> filesize_row table = ''10.00 MB'')"
    using a b c by blast
  have second: "(\<exists>t. show_video_info tm (md\<lparr>duration := Val 125, filesize := Val 10485760\<rparr>) = Inr t \<and>
           duration_row t = ''2m 5s'' \<and> filesize_row t = ''10.00 MB'') \<and>
      (\<exists>t. show_video_info tm (md\<lparr>duration := Val 0, filesize := Val 10485760\<rparr>) = Inr t \<and>
           duration_row t = ''N/A'' \<and> filesize_row t = ''10.00 MB'')"
    if cells: "render_cells tm [get (title md) ''N/A'', get (uploader md) ''N/A'',
                     get (upload_date md) ''N/A''] = Inr ()"
  proof -
    have "\<exists>t. show_video_info tm (md\<lparr>duration := Val 125, filesize := Val 10485760\<rparr>) = Inr t"
      by (rule show_video_info_returns [OF _ _ true_div_mib_sample]) (simp_all add: cells)
    then obtain t1 where
      t1: "show_video_info tm (md\<lparr>duration := Val 125, filesize := Val 10485760\<rparr>) = Inr t1"
      by blast
    have "\<exists>t. show_video_info tm (md\<lparr>duration := Val 0, filesize := Val 10485760\<rparr>) = Inr t"
      by (rule show_video_info_returns [OF _ _ true_div_mib_sample]) (simp_all add: cells)
    then obtain t2 where
      t2: "show_video_info tm (md\<lparr>duration := Val 0, filesize := Val 10485760\<rparr>) = Inr t2"
      by blast
    have p1: "duration_row t1 = ''2m 5s'' \<and> filesize_row t1 = ''10.00 MB''"
      using a [OF t1] c [OF t1] by simp
    have p2: "duration_row t2 = ''N/A'' \<and> filesize_row t2 = ''10.00 MB''"
      using b [OF t2] c [OF t2] by simp
    from t1 t2 p1 p2 show ?thesis by blast
  qed
  from first second show ?thesis by blast
qed

text \<open>
  The sample metadata on the sample terminal, and the same with a duration of 0.
\<close>

theorem show_video_info_formats_witness:
  "(\<exists>table. show_video_info (tty (sample_world [] [] [])) sample_info = Inr table \<and>
      duration sample_info = Val 125 \<and> filesize sample_info = Val 10485760 \<and>
      duration_row table = ''2m 5s'' \<and> filesize_row table = ''10.00 MB'') \<and>
   render_cells (tty (sample_world [] [] []))
     [get (title sample_info) ''N/A'', get (uploader sample_info) ''N/A'',
      get (upload_date sample_info) ''N/A''] = Inr () \<and>
   (\<exists>table. show_video_info (tty (sample_world [] [] []))
        (sample_info\<lparr>duration := Val 0, filesize := Val 10485760\<rparr>) = Inr table \<and>
      duration_row table = ''N/A'' \<and> filesize_row table = ''10.00 MB'')"
proof -
  let ?tm = "tty (sample_world [] [] [])"
  let ?T = "\<lparr> title_row = Some ''Demo'', uploader_row = Some ''someone'',
           duration_row = ''2m 5s'', views_row = ''1,234,567'',
           filesize_row = ''10.00 MB'', upload_date_row = Some ''20240101'' \<rparr>"
  have shown: "show_video_info ?tm sample_info = Inr ?T"
    by (rule show_video_info_sample) simp
  have h1: "duration sample_info = Val 125" by (simp add: sample_info_def)
  have h2: "filesize sample_info = Val 10485760" by (simp add: sample_info_def)
  have cells: "render_cells ?tm
     [get (title sample_info) ''N/A'', get (uploader sample_info) ''N/A'',
      get (upload_date sample_info) ''N/A''] = Inr ()"
    by (simp add: sample_info_def render_markup_def sample_cells_render)
  from show_video_info_formats [of ?tm sample_info ?T] shown h1 h2
  have first: "duration_row ?T = ''2m 5s'' \<and> filesize_row ?T = ''10.00 MB''" by blast
  from show_video_info_formats [of ?tm sample_info ?T] cells
  have "\<exists>t. show_video_info ?tm (sample_info\<lparr>duration := Val 0, filesize := Val 10485760\<rparr>)
           = Inr t \<and> duration_row t = ''N/A'' \<and> filesize_row t = ''10.00 MB''"
    by blast
  with shown h1 h2 first cells show ?thesis by blast
qed

section \<open>Properties of the application loop\<close>

text \<open>
  Claim C8. When a platform is selected and the URL entered is empty once stripped, the
  pass through the loop prints the notice that the URL cannot be empty and continues
  with the menu: \<open>download_video\<close> is not called, the downloader is unchanged, and
  the loop goes on from the resulting state.
\<close>

theorem empty_url_returns_to_menu:
  assumes "prompt_answers (tty w) = Inr choice # Inr answer # rest"
    and "choice \<noteq> ''0''"
    and "map_of (platforms (downloader w)) choice = Some platform"
    and "strip answer = []"
  shows "\<exists>w'. loop_body ydl w = (Continue, w') \<and>
           new_events w w' =
             [Platforms_menu (platforms (downloader w)), Print Blank, Ask Select_platform,
              Platform_guide platform, Print Blank, Ask Enter_url,
              Print Url_cannot_be_empty] \<and>
           filter is_call (new_events w w') = [] \<and>
           downloader w' = downloader w \<and>
           prompt_answers (tty w') = rest \<and>
           confirm_answers (tty w') = confirm_answers (tty w) \<and>
           run_loop ydl w = run_loop ydl w'"
proof -
  let ?w' = "w\<lparr>tty := (tty w)\<lparr>prompt_answers := rest\<rparr>,
               trace := trace w @
                 [Platforms_menu (platforms (downloader w)), Print Blank, Ask Select_platform,
                  Platform_guide platform, Print Blank, Ask Enter_url,
                  Print Url_cannot_be_empty]\<rparr>"
  have body: "loop_body ydl w = (Continue, ?w')"
    using assms by (simp add: loop_body_def Prompt_ask_def emit_def)
  have "run_loop ydl w = run_loop ydl ?w'"
    by (subst run_loop.simps) (simp add: body)
  with body show ?thesis
    by (intro exI [of _ ?w']) (simp add: new_events_def)
qed

text \<open>
  Instagram selected, a URL of three spaces: the pass continues without a call of
  \<open>download_video\<close>, whatever the extractor.
\<close>

theorem empty_url_returns_to_menu_witness:
  "prompt_answers (tty (sample_world [Inr ''2'', Inr ''   '', Inr ''0''] [] [])) =
     Inr ''2'' # Inr ''   '' # [Inr ''0''] \<and>
   map_of (platforms (downloader (sample_world [Inr ''2'', Inr ''   '', Inr ''0''] [] []))) ''2''
     = Some INSTAGRAM \<and>
   strip ''   '' = [] \<and>
   (\<exists>w'. loop_body failing_ydl (sample_world [Inr ''2'', Inr ''   '', Inr ''0''] [] [])
            = (Continue, w') \<and>
         filter is_call (new_events (sample_world [Inr ''2'', Inr ''   '', Inr ''0''] [] []) w') = [] \<and>
         prompt_answers (tty w') = [Inr ''0''])"
proof -
  let ?w = "sample_world [Inr ''2'', Inr ''   '', Inr ''0''] [] []"
  have h1: "prompt_answers (tty ?w) = Inr ''2'' # Inr ''   '' # [Inr ''0'']"
    by (simp add: sample_world_def)
  have h2: "''2'' \<noteq> ''0''" by simp
  have h3: "map_of (platforms (downloader ?w)) ''2'' = Some INSTAGRAM"
    by (simp add: sample_world_def VideoDownloader_init_def get_all_def)
  have h4: "strip ''   '' = []"
    by (simp add: strip_def is_space_def)
  from empty_url_returns_to_menu [OF h1 h2 h3 h4, of failing_ydl] h1 h3 h4
  show ?thesis by blast
qed

lemma statistics_rows_strings:
  "None \<notin> set h \<Longrightarrow> \<exists>rows. statistics_rows i h = Inr rows \<and> length rows = length h"
proof (induction h arbitrary: i)
  case Nil
  show ?case by simp
next
  case (Cons t ts)
  then obtain s where s: "t = Some s" by (cases t) auto
  from Cons obtain rows where "statistics_rows (Suc i) ts = Inr rows" "length rows = length ts"
    by fastforce
  with s show ?case by simp
qed

lemma statistics_rows_untitled:
  "None \<in> set h \<Longrightarrow>
     statistics_rows i h =
       Inl (Exception (''object of type '' @ [CHR 0x27] @ ''NoneType'' @ [CHR 0x27] @
                       '' has no len()''))"
proof (induction h arbitrary: i)
  case Nil
  then show ?case by simp
next
  case (Cons t ts)
  show ?case
  proof (cases t)
    case None
    then show ?thesis by simp
  next
    case (Some s)
    with Cons.prems have "None \<in> set ts" by simp
    from Cons.IH [OF this] Some show ?thesis by simp
  qed
qed

lemma render_cells_prompt_answers [simp]:
  "render_cells (tm\<lparr>prompt_answers := answers\<rparr>) cells = render_cells tm cells"
proof (induction cells)
  case Nil
  show ?case by simp
next
  case (Cons c cells)
  then show ?case
    by (cases c) (auto simp: render_markup_def split: option.splits)
qed

lemma render_cells_confirm_answers [simp]:
  "render_cells (tm\<lparr>confirm_answers := answers\<rparr>) cells = render_cells tm cells"
proof (induction cells)
  case Nil
  show ?case by simp
next
  case (Cons c cells)
  then show ?case
    by (cases c) (auto simp: render_markup_def split: option.splits)
qed

text \<open>
  What holds of the choice \<open>'0'\<close>: with a history of strings whose rows render, the pass
  leaves the loop after exactly one statistics table and the farewell; with an empty
  history, after the farewell alone; with an entry that is \<open>None\<close>, the \<open>TypeError\<close> of
  \<open>len\<close> leaves the loop before anything but the menu is shown.
\<close>

lemma exit_shows_statistics_for_strings:
  assumes "prompt_answers (tty w) = Inr ''0'' # rest"
    and "download_history (downloader w) \<noteq> []"
    and "statistics_rows 1 (download_history (downloader w)) = Inr rows"
    and "render_cells (tty w) (map (\<lambda>row. Some (snd row)) rows) = Inr ()"
  shows "\<exists>w'. loop_body ydl w = (Break, w') \<and>
           new_events w w' =
             [Platforms_menu (platforms (downloader w)), Print Blank, Ask Select_platform,
              Print Blank, Statistics rows, Print Blank, Print Farewell, Print Blank] \<and>
           length (filter is_statistics (new_events w w')) = 1"
  using assms
  by (simp add: loop_body_def Prompt_ask_def exit_path_def show_statistics_def new_events_def)

lemma exit_shows_no_statistics_when_empty:
  assumes "prompt_answers (tty w) = Inr ''0'' # rest"
    and "download_history (downloader w) = []"
  shows "\<exists>w'. loop_body ydl w = (Break, w') \<and>
           new_events w w' =
             [Platforms_menu (platforms (downloader w)), Print Blank, Ask Select_platform,
              Print Blank, Print Farewell, Print Blank] \<and>
           length (filter is_statistics (new_events w w')) = 0"
  using assms
  by (simp add: loop_body_def Prompt_ask_def exit_path_def new_events_def)

lemma exit_raises_for_untitled:
  assumes "prompt_answers (tty w) = Inr ''0'' # rest"
    and "None \<in> set (download_history (downloader w))"
  shows "\<exists>w'. loop_body ydl w =
             (Raised (Exception (''object of type '' @ [CHR 0x27] @ ''NoneType'' @ [CHR 0x27] @
                                 '' has no len()'')), w') \<and>
           new_events w w' =
             [Platforms_menu (platforms (downloader w)), Print Blank, Ask Select_platform] \<and>
           trace w' = trace w @
             [Platforms_menu (platforms (downloader w)), Print Blank, Ask Select_platform] \<and>
           downloader w' = downloader w"
proof -
  from assms(2) have ne: "download_history (downloader w) \<noteq> []" by auto
  from assms(1) ne statistics_rows_untitled [OF assms(2), of 1] show ?thesis
    by (simp add: loop_body_def Prompt_ask_def exit_path_def show_statistics_def new_events_def)
qed

lemma Confirm_ask_trace: "Confirm_ask p w = (r, w') \<Longrightarrow> trace w' = trace w @ [Ask p]"
  by (auto simp: Confirm_ask_def Let_def split: list.splits)

lemma Confirm_ask_downloader: "Confirm_ask p w = (r, w') \<Longrightarrow> downloader w' = downloader w"
  by (auto simp: Confirm_ask_def Let_def split: list.splits)

lemma except_Exception_trace:
  "except_Exception e w = (r, w') \<Longrightarrow>
     \<exists>evs. trace w' = trace w @ evs \<and> Ask Continue_anyway \<notin> set evs"
  by (auto simp: except_Exception_def split: pyexc.splits sum.splits)

lemma download_video_trace:
  assumes "download_video ydl url platform w = (r, w')"
  shows "\<exists>evs. trace w' = trace w @ Enter_download_video url platform # evs \<and>
           Ask Continue_anyway \<notin> set evs"
  using assms
  by (auto simp: download_video_def Let_def
      split: sum.splits prod.splits if_splits
      dest!: except_Exception_trace Confirm_ask_trace)

lemma show_statistics_trace:
  "show_statistics w = (r, w') \<Longrightarrow>
     \<exists>evs. trace w' = trace w @ evs \<and> Ask Continue_anyway \<notin> set evs"
  by (auto simp: show_statistics_def split: if_splits sum.splits)

lemma exit_path_trace:
  "exit_path w = (f, w') \<Longrightarrow>
     \<exists>evs. trace w' = trace w @ evs \<and> Ask Continue_anyway \<notin> set evs"
  by (auto simp: exit_path_def split: if_splits sum.splits prod.splits
      dest!: show_statistics_trace)

lemma download_step_trace:
  assumes "download_step ydl url platform w = (f, w')"
  shows "\<exists>evs. trace w' = trace w @ Print Blank # Enter_download_video url platform # evs \<and>
           Ask Continue_anyway \<notin> set evs"
  using assms
  by (auto simp: download_step_def split: sum.splits prod.splits if_splits
      dest!: download_video_trace Confirm_ask_trace exit_path_trace)

lemma loop_body_after_url:
  assumes "prompt_answers (tty w) = Inr choice # Inr answer # rest"
    and "choice \<noteq> ''0''"
    and "map_of (platforms (downloader w)) choice = Some platform"
    and "strip answer \<noteq> []"
  shows "\<exists>w2. loop_body ydl w = platform_check ydl (strip answer) platform w2 \<and>
           trace w2 = trace w @
             [Platforms_menu (platforms (downloader w)), Print Blank, Ask Select_platform,
              Platform_guide platform, Print Blank, Ask Enter_url] \<and>
           downloader w2 = downloader w \<and>
           confirm_answers (tty w2) = confirm_answers (tty w)"
proof -
  let ?w2 = "w\<lparr>trace := trace w @
               [Platforms_menu (platforms (downloader w)), Print Blank, Ask Select_platform,
                Platform_guide platform, Print Blank, Ask Enter_url],
              tty := (tty w)\<lparr>prompt_answers := rest\<rparr>\<rparr>"
  have "loop_body ydl w = platform_check ydl (strip answer) platform ?w2"
    using assms by (simp add: loop_body_def Prompt_ask_def emit_def)
  then show ?thesis by (intro exI [of _ ?w2]) simp
qed

lemma platform_check_mismatch_asks:
  assumes "detect_platform url = Some detected"
    and "name detected \<noteq> name platform"
    and "platform_check ydl url platform w = (f, w')"
  shows "\<exists>evs. trace w' = trace w @
           Print (Platform_warning (name detected) (name platform)) # Ask Continue_anyway # evs"
proof -
  obtain r w1 where ask: "Confirm_ask Continue_anyway
      (emit (Print (Platform_warning (name detected) (name platform))) w) = (r, w1)"
    by fastforce
  from Confirm_ask_trace [OF ask] have t1: "trace w1 = trace w @
      [Print (Platform_warning (name detected) (name platform)), Ask Continue_anyway]"
    by simp
  show ?thesis
  proof (cases r)
    case (Inl e)
    with assms ask have "w' = w1" by (simp add: platform_check_def)
    with t1 show ?thesis by simp
  next
    case (Inr go_on)
    show ?thesis
    proof (cases go_on)
      case False
      with Inr assms ask have "w' = w1" by (simp add: platform_check_def)
      with t1 show ?thesis by simp
    next
      case True
      with Inr assms ask have "download_step ydl url platform w1 = (f, w')"
        by (simp add: platform_check_def)
      from download_step_trace [OF this] obtain evs where
        "trace w' = trace w1 @ Print Blank # Enter_download_video url platform # evs"
        by blast
      with t1 show ?thesis by simp
    qed
  qed
qed

lemma platform_check_declined:
  assumes "detect_platform url = Some detected"
    and "name detected \<noteq> name platform"
    and "confirm_answers (tty w) = Inr False # crest"
    and "platform_check ydl url platform w = (f, w')"
  shows "f = Continue \<and>
         trace w' = trace w @
           [Print (Platform_warning (name detected) (name platform)), Ask Continue_anyway] \<and>
         downloader w' = downloader w"
proof -
  obtain w1 where ask: "Confirm_ask Continue_anyway
      (emit (Print (Platform_warning (name detected) (name platform))) w) = (Inr False, w1)"
    using assms(3) by (simp add: Confirm_ask_def)
  from Confirm_ask_trace [OF ask] have t1: "trace w1 = trace w @
      [Print (Platform_warning (name detected) (name platform)), Ask Continue_anyway]"
    by simp
  from Confirm_ask_downloader [OF ask] have d1: "downloader w1 = downloader w"
    by simp
  from assms(1,2,4) ask have "f = Continue \<and> w' = w1"
    by (simp add: platform_check_def)
  with t1 d1 show ?thesis by simp
qed

lemma platform_check_accepted:
  assumes "detect_platform url = Some detected"
    and "name detected \<noteq> name platform"
    and "confirm_answers (tty w) = Inr True # crest"
    and "platform_check ydl url platform w = (f, w')"
  shows "\<exists>evs. trace w' = trace w @
           Print (Platform_warning (name detected) (name platform)) # Ask Continue_anyway #
           Print Blank # Enter_download_video url platform # evs"
proof -
  obtain w1 where ask: "Confirm_ask Continue_anyway
      (emit (Print (Platform_warning (name detected) (name platform))) w) = (Inr True, w1)"
    using assms(3) by (simp add: Confirm_ask_def)
  from Confirm_ask_trace [OF ask] have t1: "trace w1 = trace w @
      [Print (Platform_warning (name detected) (name platform)), Ask Continue_anyway]"
    by simp
  from assms(1,2,4) ask have "download_step ydl url platform w1 = (f, w')"
    by (simp add: platform_check_def)
  from download_step_trace [OF this] obtain evs where
    "trace w' = trace w1 @ Print Blank # Enter_download_video url platform # evs"
    by blast
  with t1 have "trace w' = trace w @
      Print (Platform_warning (name detected) (name platform)) # Ask Continue_anyway #
      Print Blank # Enter_download_video url platform # evs"
    by simp
  then show ?thesis by blast
qed

lemma platform_check_match:
  assumes "detect_platform url = None \<or>
           (\<exists>detected. detect_platform url = Some detected \<and> name detected = name platform)"
    and "platform_check ydl url platform w = (f, w')"
  shows "\<exists>evs. trace w' = trace w @ Print Blank # Enter_download_video url platform # evs \<and>
           Ask Continue_anyway \<notin> set evs"
proof -
  from assms have "download_step ydl url platform w = (f, w')"
    by (auto simp: platform_check_def)
  then show ?thesis by (rule download_step_trace)
qed

lemma detect_loop_member: "detect_loop ps url = Some d \<Longrightarrow> d \<in> set ps"
  by (induction ps) (auto split: if_splits)

lemma catalog_names_distinct:
  assumes "p \<in> set (dict_values get_all)" and "q \<in> set (dict_values get_all)"
    and "name p = name q"
  shows "p = q"
proof -
  have "distinct (map name (dict_values get_all))"
    by (simp add: dict_values_def get_all_def YOUTUBE_def INSTAGRAM_def FACEBOOK_def
        TWITTER_def PINTEREST_def)
  then have "inj_on name (set (dict_values get_all))"
    by (simp add: distinct_map)
  with assms show ?thesis by (simp add: inj_on_def)
qed

lemma catalog_no_exit_key:
  assumes "map_of get_all choice = Some platform"
  shows "choice \<noteq> ''0''"
proof
  assume "choice = ''0''"
  moreover have "map_of get_all ''0'' = None"
    by (simp add: get_all_def)
  ultimately show False using assms by simp
qed

text \<open>
  Claim C5. After a platform of the catalog is selected and a URL that is not empty is
  entered, the pass checks the platform detected from the URL. When it differs from the
  selected one, the warning is printed and "Continue anyway?" is asked; a no ends the
  pass there, back to the menu, without a call of \<open>download_video\<close> and with the
  downloader unchanged; a yes goes on to call \<open>download_video\<close> with the URL and the
  selected platform. When nothing is detected, or the selected platform is, the call of
  \<open>download_video\<close> follows at once.
\<close>

theorem platform_check_step:
  assumes "platforms (downloader w) = get_all"
    and "prompt_answers (tty w) = Inr choice # Inr answer # rest"
    and "map_of get_all choice = Some platform"
    and "strip answer \<noteq> []"
    and "loop_body ydl w = (f, w')"
  shows "(\<forall>detected. detect_platform (strip answer) = Some detected \<and> detected \<noteq> platform \<longrightarrow>
            (\<exists>evs. new_events w w' =
                [Platforms_menu get_all, Print Blank, Ask Select_platform,
                 Platform_guide platform, Print Blank, Ask Enter_url,
                 Print (Platform_warning (name detected) (name platform)),
                 Ask Continue_anyway] @ evs) \<and>
            (\<forall>crest. confirm_answers (tty w) = Inr False # crest \<longrightarrow>
               f = Continue \<and>
               new_events w w' =
                 [Platforms_menu get_all, Print Blank, Ask Select_platform,
                  Platform_guide platform, Print Blank, Ask Enter_url,
                  Print (Platform_warning (name detected) (name platform)),
                  Ask Continue_anyway] \<and>
               filter is_call (new_events w w') = [] \<and>
               downloader w' = downloader w) \<and>
            (\<forall>crest. confirm_answers (tty w) = Inr True # crest \<longrightarrow>
               (\<exists>evs. new_events w w' =
                  [Platforms_menu get_all, Print Blank, Ask Select_platform,
                   Platform_guide platform, Print Blank, Ask Enter_url,
                   Print (Platform_warning (name detected) (name platform)),
                   Ask Continue_anyway,
                   Print Blank, Enter_download_video (strip answer) platform] @ evs))) \<and>
         (detect_platform (strip answer) = None \<or> detect_platform (strip answer) = Some platform \<longrightarrow>
            (\<exists>evs. new_events w w' =
                [Platforms_menu get_all, Print Blank, Ask Select_platform,
                 Platform_guide platform, Print Blank, Ask Enter_url,
                 Print Blank, Enter_download_video (strip answer) platform] @ evs))"
proof -
  let ?url = "strip answer"
  let ?pre = "[Platforms_menu get_all, Print Blank, Ask Select_platform,
               Platform_guide platform, Print Blank, Ask Enter_url]"
  have key: "choice \<noteq> ''0''" using assms(3) by (rule catalog_no_exit_key)
  have sel: "map_of (platforms (downloader w)) choice = Some platform"
    using assms(1,3) by simp
  from loop_body_after_url [OF assms(2) key sel assms(4), of ydl] assms(1,5)
  obtain w2 where check: "platform_check ydl ?url platform w2 = (f, w')"
    and t2: "trace w2 = trace w @ ?pre"
    and d2: "downloader w2 = downloader w"
    and c2: "confirm_answers (tty w2) = confirm_answers (tty w)"
    by auto
  have in_cat: "platform \<in> set (dict_values get_all)"
    using map_of_SomeD [OF assms(3)] by (force simp: dict_values_def)
  have names: "name detected \<noteq> name platform"
    if d: "detect_platform ?url = Some detected" and ne: "detected \<noteq> platform" for detected
  proof -
    from d have "detected \<in> set (dict_values get_all)"
      unfolding detect_platform_def by (rule detect_loop_member)
    with in_cat ne show ?thesis using catalog_names_distinct by blast
  qed
  have asked: "\<exists>evs. new_events w w' =
      [Platforms_menu get_all, Print Blank, Ask Select_platform,
       Platform_guide platform, Print Blank, Ask Enter_url,
       Print (Platform_warning (name detected) (name platform)),
       Ask Continue_anyway] @ evs"
    if d: "detect_platform ?url = Some detected" and ne: "detected \<noteq> platform" for detected
  proof -
    from platform_check_mismatch_asks [OF d names [OF d ne] check] obtain evs where
      "trace w' = trace w2 @
         Print (Platform_warning (name detected) (name platform)) # Ask Continue_anyway # evs"
      by blast
    with t2 have "new_events w w' =
      [Platforms_menu get_all, Print Blank, Ask Select_platform,
       Platform_guide platform, Print Blank, Ask Enter_url,
       Print (Platform_warning (name detected) (name platform)),
       Ask Continue_anyway] @ evs"
      by (simp add: new_events_def)
    then show ?thesis by blast
  qed
  have declined: "f = Continue \<and>
      new_events w w' =
        [Platforms_menu get_all, Print Blank, Ask Select_platform,
         Platform_guide platform, Print Blank, Ask Enter_url,
         Print (Platform_warning (name detected) (name platform)),
         Ask Continue_anyway] \<and>
      filter is_call (new_events w w') = [] \<and> downloader w' = downloader w"
    if d: "detect_platform ?url = Some detected" and ne: "detected \<noteq> platform"
      and no: "confirm_answers (tty w) = Inr False # crest" for detected crest
  proof -
    from no c2 have "confirm_answers (tty w2) = Inr False # crest" by simp
    from platform_check_declined [OF d names [OF d ne] this check]
    have f: "f = Continue" and tr: "trace w' = trace w2 @
        [Print (Platform_warning (name detected) (name platform)), Ask Continue_anyway]"
      and dl: "downloader w' = downloader w2"
      by simp_all
    from tr t2 have ne': "new_events w w' =
        [Platforms_menu get_all, Print Blank, Ask Select_platform,
         Platform_guide platform, Print Blank, Ask Enter_url,
         Print (Platform_warning (name detected) (name platform)),
         Ask Continue_anyway]"
      by (simp add: new_events_def)
    then have "filter is_call (new_events w w') = []"
      by simp
    with f ne' dl d2 show ?thesis by simp
  qed
  have accepted: "\<exists>evs. new_events w w' =
      [Platforms_menu get_all, Print Blank, Ask Select_platform,
       Platform_guide platform, Print Blank, Ask Enter_url,
       Print (Platform_warning (name detected) (name platform)),
       Ask Continue_anyway,
       Print Blank, Enter_download_video (strip answer) platform] @ evs"
    if d: "detect_platform ?url = Some detected" and ne: "detected \<noteq> platform"
      and yes: "confirm_answers (tty w) = Inr True # crest" for detected crest
  proof -
    from yes c2 have "confirm_answers (tty w2) = Inr True # crest" by simp
    from platform_check_accepted [OF d names [OF d ne] this check] obtain evs where
      "trace w' = trace w2 @
         Print (Platform_warning (name detected) (name platform)) # Ask Continue_anyway #
         Print Blank # Enter_download_video ?url platform # evs"
      by blast
    with t2 have "new_events w w' =
      [Platforms_menu get_all, Print Blank, Ask Select_platform,
       Platform_guide platform, Print Blank, Ask Enter_url,
       Print (Platform_warning (name detected) (name platform)),
       Ask Continue_anyway,
       Print Blank, Enter_download_video (strip answer) platform] @ evs"
      by (simp add: new_events_def)
    then show ?thesis by blast
  qed
  have match: "\<exists>evs. new_events w w' =
        [Platforms_menu get_all, Print Blank, Ask Select_platform,
         Platform_guide platform, Print Blank, Ask Enter_url,
         Print Blank, Enter_download_video (strip answer) platform] @ evs"
    if "detect_platform ?url = None \<or> detect_platform ?url = Some platform"
  proof -
    from that have "detect_platform ?url = None \<or>
        (\<exists>detected. detect_platform ?url = Some detected \<and> name detected = name platform)"
      by auto
    from platform_check_match [OF this check] obtain evs where
      "trace w' = trace w2 @ Print Blank # Enter_download_video ?url platform # evs"
      by blast
    with t2 have "new_events w w' =
        [Platforms_menu get_all, Print Blank, Ask Select_platform,
         Platform_guide platform, Print Blank, Ask Enter_url,
         Print Blank, Enter_download_video (strip answer) platform] @ evs"
      by (simp add: new_events_def)
    then show ?thesis by blast
  qed
  show ?thesis
  proof (intro conjI allI impI)
    fix detected
    assume "detect_platform ?url = Some detected \<and> detected \<noteq> platform"
    then show "\<exists>evs. new_events w w' =
      [Platforms_menu get_all, Print Blank, Ask Select_platform,
       Platform_guide platform, Print Blank, Ask Enter_url,
       Print (Platform_warning (name detected) (name platform)),
       Ask Continue_anyway] @ evs"
      using asked by blast
  next
    fix detected crest
    assume a: "detect_platform ?url = Some detected \<and> detected \<noteq> platform"
      and b: "confirm_answers (tty w) = Inr False # crest"
    from a b declined [of detected crest]
    show "f = Continue" and "new_events w w' =
        [Platforms_menu get_all, Print Blank, Ask Select_platform,
         Platform_guide platform, Print Blank, Ask Enter_url,
         Print (Platform_warning (name detected) (name platform)),
         Ask Continue_anyway]"
      and "filter is_call (new_events w w') = []" and "downloader w' = downloader w"
      by blast+
  next
    fix detected crest
    assume a: "detect_platform ?url = Some detected \<and> detected \<noteq> platform"
      and b: "confirm_answers (tty w) = Inr True # crest"
    from a b accepted [of detected crest]
    show "\<exists>evs. new_events w w' =
      [Platforms_menu get_all, Print Blank, Ask Select_platform,
       Platform_guide platform, Print Blank, Ask Enter_url,
       Print (Platform_warning (name detected) (name platform)),
       Ask Continue_anyway,
       Print Blank, Enter_download_video (strip answer) platform] @ evs"
      by blast
  next
    assume "detect_platform ?url = None \<or> detect_platform ?url = Some platform"
    then show "\<exists>evs. new_events w w' =
        [Platforms_menu get_all, Print Blank, Ask Select_platform,
         Platform_guide platform, Print Blank, Ask Enter_url,
         Print Blank, Enter_download_video (strip answer) platform] @ evs"
      by (rule match)
  qed
qed

text \<open>
  Claim C6. In a pass with a selected platform and a URL that is not empty,
  "Continue anyway?" is asked exactly when detection finds a platform whose name
  differs from the selected platform's name. When detection finds none, it is not asked
  and \<open>download_video\<close> is called at once with the URL and the selected platform.
\<close>

theorem mismatch_prompt_only_on_detection:
  assumes "prompt_answers (tty w) = Inr choice # Inr answer # rest"
    and "choice \<noteq> ''0''"
    and "map_of (platforms (downloader w)) choice = Some platform"
    and "strip answer \<noteq> []"
    and "loop_body ydl w = (f, w')"
  shows "(Ask Continue_anyway \<in> set (new_events w w') \<longleftrightarrow>
            (\<exists>detected. detect_platform (strip answer) = Some detected \<and>
               name detected \<noteq> name platform)) \<and>
         (detect_platform (strip answer) = None \<longrightarrow>
            Ask Continue_anyway \<notin> set (new_events w w') \<and>
            (\<exists>evs. new_events w w' =
                [Platforms_menu (platforms (downloader w)), Print Blank, Ask Select_platform,
                 Platform_guide platform, Print Blank, Ask Enter_url,
                 Print Blank, Enter_download_video (strip answer) platform] @ evs))"
proof -
  let ?url = "strip answer"
  from loop_body_after_url [OF assms(1-4), of ydl] assms(5)
  obtain w2 where check: "platform_check ydl ?url platform w2 = (f, w')"
    and t2: "trace w2 = trace w @
      [Platforms_menu (platforms (downloader w)), Print Blank, Ask Select_platform,
       Platform_guide platform, Print Blank, Ask Enter_url]"
    by auto
  show ?thesis
  proof (cases "\<exists>detected. detect_platform ?url = Some detected \<and> name detected \<noteq> name platform")
    case True
    then obtain detected where d: "detect_platform ?url = Some detected"
      and names: "name detected \<noteq> name platform" by blast
    from platform_check_mismatch_asks [OF d names check] obtain evs where
      "trace w' = trace w2 @
         Print (Platform_warning (name detected) (name platform)) # Ask Continue_anyway # evs"
      by blast
    with t2 have "Ask Continue_anyway \<in> set (new_events w w')"
      by (simp add: new_events_def)
    with True d show ?thesis by simp
  next
    case False
    then have "detect_platform ?url = None \<or>
        (\<exists>detected. detect_platform ?url = Some detected \<and> name detected = name platform)"
      by (cases "detect_platform ?url") auto
    from platform_check_match [OF this check] obtain evs where
      tr: "trace w' = trace w2 @ Print Blank # Enter_download_video ?url platform # evs"
      and quiet: "Ask Continue_anyway \<notin> set evs"
      by blast
    from tr t2 have ne: "new_events w w' =
        [Platforms_menu (platforms (downloader w)), Print Blank, Ask Select_platform,
         Platform_guide platform, Print Blank, Ask Enter_url,
         Print Blank, Enter_download_video ?url platform] @ evs"
      by (simp add: new_events_def)
    with quiet have no: "Ask Continue_anyway \<notin> set (new_events w w')" by simp
    from ne have "\<exists>evs. new_events w w' =
        [Platforms_menu (platforms (downloader w)), Print Blank, Ask Select_platform,
         Platform_guide platform, Print Blank, Ask Enter_url,
         Print Blank, Enter_download_video ?url platform] @ evs"
      by blast
    with False no show ?thesis by blast
  qed
qed

lemma strip_example_url: "strip ''https://example.com/video'' = ''https://example.com/video''"
  by (simp add: strip_def is_space_def)

lemma strip_instagram_url:
  "strip ''https://www.instagram.com/reel/XYZ/'' = ''https://www.instagram.com/reel/XYZ/''"
  by (simp add: strip_def is_space_def)

lemma detect_example_url: "detect_platform ''https://example.com/video'' = None"
  by code_simp

lemma detect_instagram_url:
  "detect_platform ''https://www.instagram.com/reel/XYZ/'' = Some INSTAGRAM"
  by code_simp

text \<open>
  YouTube selected, a URL of no catalog domain: no "Continue anyway?", and the call of
  \<open>download_video\<close> with YouTube follows the URL prompt.
\<close>

theorem mismatch_prompt_only_on_detection_witness:
  "detect_platform (strip ''https://example.com/video'') = None \<and>
   Ask Continue_anyway \<notin> set (new_events
      (sample_world [Inr ''1'', Inr ''https://example.com/video''] [Inr False] [])
      (snd (loop_body sample_ydl
         (sample_world [Inr ''1'', Inr ''https://example.com/video''] [Inr False] [])))) \<and>
   (\<exists>evs. new_events
      (sample_world [Inr ''1'', Inr ''https://example.com/video''] [Inr False] [])
      (snd (loop_body sample_ydl
         (sample_world [Inr ''1'', Inr ''https://example.com/video''] [Inr False] []))) =
      [Platforms_menu get_all, Print Blank, Ask Select_platform,
       Platform_guide YOUTUBE, Print Blank, Ask Enter_url,
       Print Blank, Enter_download_video ''https://example.com/video'' YOUTUBE] @ evs)"
proof -
  let ?w = "sample_world [Inr ''1'', Inr ''https://example.com/video''] [Inr False] []"
  let ?R = "loop_body sample_ydl ?w"
  have h1: "prompt_answers (tty ?w) = Inr ''1'' # Inr ''https://example.com/video'' # []"
    by (simp add: sample_world_def)
  have h2: "''1'' \<noteq> ''0''" by simp
  have h3: "map_of (platforms (downloader ?w)) ''1'' = Some YOUTUBE"
    by (simp add: sample_world_def VideoDownloader_init_def get_all_def)
  have h4: "strip ''https://example.com/video'' \<noteq> []"
    by (simp add: strip_example_url)
  have h5: "?R = (fst ?R, snd ?R)" by simp
  have none: "detect_platform (strip ''https://example.com/video'') = None"
    by (simp add: strip_example_url detect_example_url)
  have p: "platforms (downloader ?w) = get_all"
    by (simp add: sample_world_def VideoDownloader_init_def)
  from mismatch_prompt_only_on_detection [OF h1 h2 h3 h4 h5] none
  have "Ask Continue_anyway \<notin> set (new_events ?w (snd ?R)) \<and>
        (\<exists>evs. new_events ?w (snd ?R) =
            [Platforms_menu (platforms (downloader ?w)), Print Blank, Ask Select_platform,
             Platform_guide YOUTUBE, Print Blank, Ask Enter_url,
             Print Blank,
             Enter_download_video (strip ''https://example.com/video'') YOUTUBE] @ evs)"
    by blast
  with none show ?thesis unfolding p strip_example_url by blast
qed

text \<open>
  An Instagram URL with YouTube selected, declined and accepted, and with Instagram
  selected.
\<close>

theorem platform_check_step_witness:
  "detect_platform (strip ''https://www.instagram.com/reel/XYZ/'') = Some INSTAGRAM \<and>
   INSTAGRAM \<noteq> YOUTUBE \<and>
   fst (loop_body sample_ydl
      (sample_world [Inr ''1'', Inr ''https://www.instagram.com/reel/XYZ/''] [Inr False] []))
     = Continue \<and>
   filter is_call (new_events
      (sample_world [Inr ''1'', Inr ''https://www.instagram.com/reel/XYZ/''] [Inr False] [])
      (snd (loop_body sample_ydl
         (sample_world [Inr ''1'', Inr ''https://www.instagram.com/reel/XYZ/''] [Inr False] []))))
     = [] \<and>
   (\<exists>evs. new_events
      (sample_world [Inr ''1'', Inr ''https://www.instagram.com/reel/XYZ/''] [Inr True] [])
      (snd (loop_body sample_ydl
         (sample_world [Inr ''1'', Inr ''https://www.instagram.com/reel/XYZ/''] [Inr True] []))) =
      [Platforms_menu get_all, Print Blank, Ask Select_platform,
       Platform_guide YOUTUBE, Print Blank, Ask Enter_url,
       Print (Platform_warning (name INSTAGRAM) (name YOUTUBE)), Ask Continue_anyway,
       Print Blank,
       Enter_download_video (strip ''https://www.instagram.com/reel/XYZ/'') YOUTUBE] @ evs) \<and>
   (\<exists>evs. new_events
      (sample_world [Inr ''2'', Inr ''https://www.instagram.com/reel/XYZ/''] [] [])
      (snd (loop_body sample_ydl
         (sample_world [Inr ''2'', Inr ''https://www.instagram.com/reel/XYZ/''] [] []))) =
      [Platforms_menu get_all, Print Blank, Ask Select_platform,
       Platform_guide INSTAGRAM, Print Blank, Ask Enter_url,
       Print Blank,
       Enter_download_video (strip ''https://www.instagram.com/reel/XYZ/'') INSTAGRAM] @ evs)"
proof -
  let ?u = "''https://www.instagram.com/reel/XYZ/''"
  let ?wn = "sample_world [Inr ''1'', Inr ?u] [Inr False] []"
  let ?wy = "sample_world [Inr ''1'', Inr ?u] [Inr True] []"
  let ?wm = "sample_world [Inr ''2'', Inr ?u] [] []"
  have det: "detect_platform (strip ?u) = Some INSTAGRAM"
    by (simp add: strip_instagram_url detect_instagram_url)
  have ne: "INSTAGRAM \<noteq> YOUTUBE"
    by (simp add: INSTAGRAM_def YOUTUBE_def)
  have nonempty: "strip ?u \<noteq> []" by (simp add: strip_instagram_url)
  have k1: "map_of get_all ''1'' = Some YOUTUBE" by (simp add: get_all_def)
  have k2: "map_of get_all ''2'' = Some INSTAGRAM" by (simp add: get_all_def)
  have pn: "platforms (downloader ?wn) = get_all"
    by (simp add: sample_world_def VideoDownloader_init_def)
  have an: "prompt_answers (tty ?wn) = Inr ''1'' # Inr ?u # []"
    by (simp add: sample_world_def)
  have cn: "confirm_answers (tty ?wn) = Inr False # []"
    by (simp add: sample_world_def)
  have rn: "loop_body sample_ydl ?wn = (fst (loop_body sample_ydl ?wn), snd (loop_body sample_ydl ?wn))"
    by simp
  from platform_check_step [OF pn an k1 nonempty rn] det ne cn
  have declined: "fst (loop_body sample_ydl ?wn) = Continue \<and>
      filter is_call (new_events ?wn (snd (loop_body sample_ydl ?wn))) = []"
    by blast
  have py: "platforms (downloader ?wy) = get_all"
    by (simp add: sample_world_def VideoDownloader_init_def)
  have ay: "prompt_answers (tty ?wy) = Inr ''1'' # Inr ?u # []"
    by (simp add: sample_world_def)
  have cy: "confirm_answers (tty ?wy) = Inr True # []"
    by (simp add: sample_world_def)
  have ry: "loop_body sample_ydl ?wy = (fst (loop_body sample_ydl ?wy), snd (loop_body sample_ydl ?wy))"
    by simp
  from platform_check_step [OF py ay k1 nonempty ry] det ne cy
  have accepted: "\<exists>evs. new_events ?wy (snd (loop_body sample_ydl ?wy)) =
      [Platforms_menu get_all, Print Blank, Ask Select_platform,
       Platform_guide YOUTUBE, Print Blank, Ask Enter_url,
       Print (Platform_warning (name INSTAGRAM) (name YOUTUBE)), Ask Continue_anyway,
       Print Blank, Enter_download_video (strip ?u) YOUTUBE] @ evs"
    by blast
  have pm: "platforms (downloader ?wm) = get_all"
    by (simp add: sample_world_def VideoDownloader_init_def)
  have am: "prompt_answers (tty ?wm) = Inr ''2'' # Inr ?u # []"
    by (simp add: sample_world_def)
  have rm: "loop_body sample_ydl ?wm = (fst (loop_body sample_ydl ?wm), snd (loop_body sample_ydl ?wm))"
    by simp
  from platform_check_step [OF pm am k2 nonempty rm] det
  have matched: "\<exists>evs. new_events ?wm (snd (loop_body sample_ydl ?wm)) =
      [Platforms_menu get_all, Print Blank, Ask Select_platform,
       Platform_guide INSTAGRAM, Print Blank, Ask Enter_url,
       Print Blank, Enter_download_video (strip ?u) INSTAGRAM] @ evs"
    by blast
  from det ne declined accepted matched show ?thesis by blast
qed

lemma strip_youtube_url: "strip ''https://youtu.be/dQw4w9WgXcQ'' = ''https://youtu.be/dQw4w9WgXcQ''"
  by (simp add: strip_def is_space_def)

lemma detect_youtube_url: "detect_platform ''https://youtu.be/dQw4w9WgXcQ'' = Some YOUTUBE"
  by code_simp

lemma show_video_info_untitled:
  assumes "markup_error tm = sample_markup_error"
  shows "show_video_info tm untitled_info =
     Inr \<lparr> title_row = None, uploader_row = Some ''someone'',
           duration_row = ''2m 5s'', views_row = ''1,234,567'',
           filesize_row = ''10.00 MB'', upload_date_row = Some ''20240101'' \<rparr>"
  using assms
  by (simp add: show_video_info_def untitled_info_def sample_info_def true_div_mib_sample
      format_2f_sample str_int_def format_comma_def group3_def str_nat.simps digit_char_def
      render_markup_def sample_cells_render)

lemma title_untitled: "title untitled_info = Null"
  by (simp add: untitled_info_def)

lemma untitled_download:
  "download_video untitled_ydl ''https://youtu.be/dQw4w9WgXcQ'' YOUTUBE
     (sample_world [] [Inr True] []) = (r, w') \<Longrightarrow>
   r = Inr True \<and> download_history (downloader w') = [None]"
  by (auto simp: download_video_def Let_def untitled_ydl_def show_video_info_untitled
      Confirm_ask_def sample_world_def history_append_def title_untitled
      VideoDownloader_init_def)

lemma untitled_pass:
  "loop_body untitled_ydl
     (emit Banner (sample_world [Inr ''1'', Inr ''https://youtu.be/dQw4w9WgXcQ'', Inr ''0'']
        [Inr True, Inr True] [])) =
   (Continue,
    \<lparr> downloader = \<lparr> output_dir = ''downloads'', platforms = get_all,
                     download_history = [None] \<rparr>,
      tty = \<lparr> prompt_answers = [Inr ''0''], confirm_answers = [],
              markup_error = sample_markup_error \<rparr>,
      trace = [Banner, Platforms_menu get_all, Print Blank, Ask Select_platform,
               Platform_guide YOUTUBE, Print Blank, Ask Enter_url, Print Blank,
               Enter_download_video ''https://youtu.be/dQw4w9WgXcQ'' YOUTUBE, Status,
               Extract_info (configure_ydl_options (VideoDownloader_init ''downloads'') YOUTUBE)
                 ''https://youtu.be/dQw4w9WgXcQ'',
               Video_info \<lparr> title_row = None, uploader_row = Some ''someone'',
                            duration_row = ''2m 5s'', views_row = ''1,234,567'',
                            filesize_row = ''10.00 MB'',
                            upload_date_row = Some ''20240101'' \<rparr>,
               Print Blank, Ask Proceed_with_download, Print Blank,
               Download (configure_ydl_options (VideoDownloader_init ''downloads'') YOUTUBE)
                 ''https://youtu.be/dQw4w9WgXcQ'',
               Prepare_filename untitled_info,
               Success_message ''downloads'' ''downloads/Demo.mp4'',
               Print Blank, Ask Download_another] \<rparr>)"
proof -
  have key: "map_of get_all ''1'' = Some YOUTUBE" by (simp add: get_all_def)
  show ?thesis
    by (simp add: loop_body_def Prompt_ask_def sample_world_def VideoDownloader_init_def key
        strip_youtube_url platform_check_def detect_youtube_url download_step_def
        download_video_def Let_def untitled_ydl_def show_video_info_untitled Confirm_ask_def
        history_append_def title_untitled emit_def)
qed

text \<open>
  Claim C9. The choice \<open>'0'\<close> with a history that is not empty is to show the statistics
  table once and then the farewell. It does not after the download of a video whose
  metadata holds the title \<open>None\<close>: the download succeeds and appends \<open>None\<close>, and on the
  choice \<open>'0'\<close> \<open>len(title)\<close> raises \<open>TypeError\<close> in \<open>show_statistics\<close>. The run ends
  with that exception; neither a statistics table nor the farewell is shown.
\<close>

theorem exit_after_untitled_download:
  "fst (run untitled_ydl (sample_world [Inr ''1'', Inr ''https://youtu.be/dQw4w9WgXcQ'', Inr ''0'']
        [Inr True, Inr True] [])) =
     Inl (Exception (''object of type '' @ [CHR 0x27] @ ''NoneType'' @ [CHR 0x27] @
                     '' has no len()'')) \<and>
   download_history (downloader (snd (run untitled_ydl (sample_world [Inr ''1'', Inr ''https://youtu.be/dQw4w9WgXcQ'', Inr ''0'']
        [Inr True, Inr True] [])))) = [None] \<and>
   trace (snd (run untitled_ydl (sample_world [Inr ''1'', Inr ''https://youtu.be/dQw4w9WgXcQ'', Inr ''0'']
        [Inr True, Inr True] []))) =
     [Banner, Platforms_menu get_all, Print Blank, Ask Select_platform,
      Platform_guide YOUTUBE, Print Blank, Ask Enter_url, Print Blank,
      Enter_download_video ''https://youtu.be/dQw4w9WgXcQ'' YOUTUBE, Status,
      Extract_info (configure_ydl_options (VideoDownloader_init ''downloads'') YOUTUBE)
        ''https://youtu.be/dQw4w9WgXcQ'',
      Video_info \<lparr> title_row = None, uploader_row = Some ''someone'',
                   duration_row = ''2m 5s'', views_row = ''1,234,567'',
                   filesize_row = ''10.00 MB'', upload_date_row = Some ''20240101'' \<rparr>,
      Print Blank, Ask Proceed_with_download, Print Blank,
      Download (configure_ydl_options (VideoDownloader_init ''downloads'') YOUTUBE)
        ''https://youtu.be/dQw4w9WgXcQ'',
      Prepare_filename untitled_info,
      Success_message ''downloads'' ''downloads/Demo.mp4'',
      Print Blank, Ask Download_another,
      Platforms_menu get_all, Print Blank, Ask Select_platform] \<and>
   filter is_statistics (trace (snd (run untitled_ydl (sample_world [Inr ''1'', Inr ''https://youtu.be/dQw4w9WgXcQ'', Inr ''0'']
        [Inr True, Inr True] [])))) = [] \<and>
   Print Farewell \<notin> set (trace (snd (run untitled_ydl (sample_world [Inr ''1'', Inr ''https://youtu.be/dQw4w9WgXcQ'', Inr ''0'']
        [Inr True, Inr True] []))))"
proof -
  let ?w1 = "\<lparr> downloader = \<lparr> output_dir = ''downloads'', platforms = get_all,
                     download_history = [None] \<rparr>,
      tty = \<lparr> prompt_answers = [Inr ''0''], confirm_answers = [],
              markup_error = sample_markup_error \<rparr>,
      trace = [Banner, Platforms_menu get_all, Print Blank, Ask Select_platform,
               Platform_guide YOUTUBE, Print Blank, Ask Enter_url, Print Blank,
               Enter_download_video ''https://youtu.be/dQw4w9WgXcQ'' YOUTUBE, Status,
               Extract_info (configure_ydl_options (VideoDownloader_init ''downloads'') YOUTUBE)
                 ''https://youtu.be/dQw4w9WgXcQ'',
               Video_info \<lparr> title_row = None, uploader_row = Some ''someone'',
                            duration_row = ''2m 5s'', views_row = ''1,234,567'',
                            filesize_row = ''10.00 MB'',
                            upload_date_row = Some ''20240101'' \<rparr>,
               Print Blank, Ask Proceed_with_download, Print Blank,
               Download (configure_ydl_options (VideoDownloader_init ''downloads'') YOUTUBE)
                 ''https://youtu.be/dQw4w9WgXcQ'',
               Prepare_filename untitled_info,
               Success_message ''downloads'' ''downloads/Demo.mp4'',
               Print Blank, Ask Download_another] \<rparr>"
  have a1: "prompt_answers (tty ?w1) = Inr ''0'' # []" by simp
  have a2: "None \<in> set (download_history (downloader ?w1))" by simp
  from exit_raises_for_untitled [OF a1 a2, of untitled_ydl] obtain w2 where
    pass2: "loop_body untitled_ydl ?w1 =
       (Raised (Exception (''object of type '' @ [CHR 0x27] @ ''NoneType'' @ [CHR 0x27] @
                           '' has no len()'')), w2)"
    and tr2: "trace w2 = trace ?w1 @
       [Platforms_menu (platforms (downloader ?w1)), Print Blank, Ask Select_platform]"
    and d2: "downloader w2 = downloader ?w1"
    by blast
  have r: "run untitled_ydl (sample_world [Inr ''1'', Inr ''https://youtu.be/dQw4w9WgXcQ'', Inr ''0'']
        [Inr True, Inr True] []) =
      (Inl (Exception (''object of type '' @ [CHR 0x27] @ ''NoneType'' @ [CHR 0x27] @
                       '' has no len()'')), w2)"
    unfolding run_def
    by (subst run_loop.simps, simp add: untitled_pass, subst run_loop.simps, simp add: pass2)
  from r tr2 d2 show ?thesis by simp
qed

section \<open>The history across the loop\<close>

text \<open>
  Nothing but the successful end of \<open>download_video\<close> writes the history, so every
  call, every pass through the loop and the whole run leave the earlier history as the
  beginning of the later one.
\<close>

lemma Prompt_ask_downloader: "Prompt_ask p w = (r, w') \<Longrightarrow> downloader w' = downloader w"
  by (auto simp: Prompt_ask_def Let_def split: list.splits)

lemma show_statistics_downloader: "show_statistics w = (r, w') \<Longrightarrow> downloader w' = downloader w"
  by (auto simp: show_statistics_def split: if_splits sum.splits)

lemma exit_path_downloader: "exit_path w = (f, w') \<Longrightarrow> downloader w' = downloader w"
  by (auto simp: exit_path_def split: if_splits sum.splits prod.splits
      dest!: show_statistics_downloader)

lemma except_Exception_downloader:
  "except_Exception e w = (r, w') \<Longrightarrow> downloader w' = downloader w \<and> r \<noteq> Inr True"
  by (drule except_Exception_outcome) simp

lemma download_video_history_grows:
  assumes "download_video ydl url platform w = (r, w')"
  shows "\<exists>new. download_history (downloader w') = download_history (downloader w) @ new"
  using assms
  by (auto simp: download_video_def Let_def history_append_def
      split: sum.splits prod.splits if_splits
      dest!: except_Exception_downloader Confirm_ask_downloader)

lemma download_step_history_grows:
  assumes "download_step ydl url platform w = (f, w')"
  shows "\<exists>new. download_history (downloader w') = download_history (downloader w) @ new"
proof -
  obtain r w1 where dv: "download_video ydl url platform (emit (Print Blank) w) = (r, w1)"
    by fastforce
  from download_video_history_grows [OF dv] obtain new where
    h1: "download_history (downloader w1) = download_history (downloader w) @ new"
    by auto
  have "downloader w' = downloader w1"
    using assms dv
    by (auto simp: download_step_def split: sum.splits prod.splits if_splits
        dest!: Confirm_ask_downloader exit_path_downloader)
  with h1 show ?thesis by simp
qed

lemma platform_check_history_grows:
  assumes "platform_check ydl url platform w = (f, w')"
  shows "\<exists>new. download_history (downloader w') = download_history (downloader w) @ new"
  using assms
  by (auto simp: platform_check_def split: option.splits sum.splits prod.splits if_splits
      dest!: Confirm_ask_downloader download_step_history_grows)

lemma loop_body_history_grows:
  assumes "loop_body ydl w = (f, w')"
  shows "\<exists>new. download_history (downloader w') = download_history (downloader w) @ new"
  using assms
  by (auto simp: loop_body_def Let_def split: option.splits sum.splits prod.splits if_splits
      dest!: Prompt_ask_downloader exit_path_downloader platform_check_history_grows)

lemma run_loop_history_grows:
  "run_loop ydl w = (r, w') \<Longrightarrow>
     \<exists>new. download_history (downloader w') = download_history (downloader w) @ new"
proof (induction ydl w rule: run_loop.induct)
  case (1 ydl w)
  obtain f w1 where body: "loop_body ydl w = (f, w1)" by fastforce
  from loop_body_history_grows [OF body] obtain new1 where
    h1: "download_history (downloader w1) = download_history (downloader w) @ new1"
    by blast
  show ?case
  proof (cases f)
    case Continue
    with body "1.prems" have "run_loop ydl w1 = (r, w')"
      by (subst (asm) run_loop.simps) simp
    from "1.IH" [OF body [symmetric] Continue this] obtain new2 where
      "download_history (downloader w') = download_history (downloader w1) @ new2"
      by blast
    with h1 show ?thesis by simp
  next
    case Break
    with body "1.prems" have "w' = w1"
      by (subst (asm) run_loop.simps) simp
    with h1 show ?thesis by blast
  next
    case (Raised e)
    with body "1.prems" have "w' = w1"
      by (subst (asm) run_loop.simps) simp
    with h1 show ?thesis by blast
  qed
qed

lemma run_history_grows:
  "run ydl w = (r, w') \<Longrightarrow>
     \<exists>new. download_history (downloader w') = download_history (downloader w) @ new"
  unfolding run_def by (drule run_loop_history_grows) simp

end
